theory Spec2Isabelle
  imports Complex_Main "HOL-Library.Multiset"
begin

section \<open>Data model of dataset.ts\<close>

text \<open>
  A JavaScript \<open>number\<close> is modelled as a real number, with one extra value for the
  result \<open>NaN\<close> that \<open>normalRandom\<close> can produce from finite arguments.
  Coordinates are computed over the reals. Where the number of examples or a label
  depends on the rounding of double-precision arithmetic (the quotas of
  \<open>makeClassifyDataWithLines\<close>, the boundary test of \<open>getCircleLabel\<close>), the operations
  are rounded as the source rounds them.
\<close>

datatype number = Num real | NaN

text \<open>
  \<open>Example2D = {x, y, label}\<close>. The fields \<open>x\<close> and \<open>y\<close> are called
  \<open>ex_x\<close> and \<open>ex_y\<close> here, so that \<open>x\<close> and \<open>y\<close> stay usable as variables.
\<close>

record Example2D =
  ex_x :: number
  ex_y :: number
  label :: number

text \<open>\<open>Point = {x, y}\<close>.\<close>

record Point =
  px :: real
  py :: real

text \<open>\<open>PropertyForLines = {label, ratio, p0, p1}\<close>.\<close>

record PropertyForLines =
  prop_label :: real
  ratio :: real
  p0 :: Point
  p1 :: Point

section \<open>The random source\<close>

text \<open>
  \<open>Math.random()\<close> returns a number in \<open>[0, 1)\<close>. A value it can return is a
  \<open>draw\<close>; the ambient random source is the sequence of the draws it will hand
  out, and the state threaded through every function is the number of draws used so far.
\<close>

typedef draw = "{r :: real. 0 \<le> r \<and> r < 1}"
  by (rule exI [of _ 0]) simp

type_synonym source = "nat \<Rightarrow> draw"

definition Math_random :: "source \<Rightarrow> nat \<Rightarrow> real \<times> nat" where
  "Math_random rnd k = (Rep_draw (rnd k), Suc k)"

text \<open>A source that returns the same draw forever, for running the code on fixed draws.\<close>

definition const_source :: "real \<Rightarrow> source" where
  "const_source r = (\<lambda>k. Abs_draw r)"

text \<open>\<open>randUniform(a, b) = Math.random() * (b - a) + a\<close>.\<close>

definition randUniform :: "source \<Rightarrow> nat \<Rightarrow> real \<Rightarrow> real \<Rightarrow> real \<times> nat" where
  "randUniform rnd k a b = (let (u, k) = Math_random rnd k in (u * (b - a) + a, k))"

text \<open>\<open>randOnLine(a, b)\<close>: one draw \<open>t\<close>, the point \<open>a + (b - a) * t\<close>.\<close>

definition randOnLine :: "source \<Rightarrow> nat \<Rightarrow> Point \<Rightarrow> Point \<Rightarrow> Point \<times> nat" where
  "randOnLine rnd k a b =
     (let (t, k) = Math_random rnd k
      in (\<lparr>px = px a + (px b - px a) * t, py = py a + (py b - py a) * t\<rparr>, k))"

text \<open>\<open>dist(a, b)\<close>: the Euclidean distance.\<close>

definition dist2 :: "Point \<Rightarrow> Point \<Rightarrow> real" where
  "dist2 a b = (let dx = px a - px b; dy = py a - py b in sqrt (dx * dx + dy * dy))"

section \<open>Double-precision rounding\<close>

text \<open>
  A double-precision operation returns the exact result rounded to the nearest number
  with a significand of 53 bits, a tie going to the even significand.
  \<open>round_even\<close> rounds to the nearest integer in that way, and \<open>fl x\<close> rounds \<open>x\<close>
  at the spacing \<open>2 ^ (e - 52)\<close> of its binade \<open>2 ^ e \<le> \<bar>x\<bar> < 2 ^ (e + 1)\<close>.
  The exponent is not bounded: overflow to \<open>Infinity\<close> and subnormal numbers are not
  modelled. The numeric arguments of a generator and the draws of the random source are
  taken as they are, and are doubles in a run of the program.
\<close>

definition round_even :: "real \<Rightarrow> int" where
  "round_even q =
     (let f = \<lfloor>q\<rfloor>
      in if q - of_int f < 1 / 2 then f
         else if q - of_int f > 1 / 2 then f + 1
         else if even f then f else f + 1)"

definition fl :: "real \<Rightarrow> real" where
  "fl x =
     (if x = 0 then 0
      else let e = \<lfloor>log 2 \<bar>x\<bar>\<rfloor> - 52
           in of_int (round_even (x / 2 powi e)) * 2 powi e)"

section \<open>Loops\<close>

text \<open>
  \<open>for (let i = i0; i < bound; i++) body\<close>, where \<open>bound\<close> is a number that need
  not be an integer: the generators compare the counter with \<open>numSamples / 2\<close>,
  which is a floating-point quotient.
\<close>

function for_loop :: "real \<Rightarrow> (nat \<Rightarrow> 's \<Rightarrow> 's) \<Rightarrow> nat \<Rightarrow> 's \<Rightarrow> 's" where
  "for_loop bound body i s =
     (if real i < bound then for_loop bound body (Suc i) (body i s) else s)"
  by pat_completeness auto
termination
proof (relation "measure (\<lambda>(bound, body, i, s). nat \<lceil>bound\<rceil> - i)")
  show "wf (measure (\<lambda>(bound :: real, body :: nat \<Rightarrow> 's \<Rightarrow> 's, i, s). nat \<lceil>bound\<rceil> - i))"
    by simp
next
  fix bound :: real and body :: "nat \<Rightarrow> 's \<Rightarrow> 's" and i :: nat and s :: 's
  assume "real i < bound"
  then have "i < nat \<lceil>bound\<rceil>"
    by linarith
  then show "((bound, body, Suc i, body i s), (bound, body, i, s))
      \<in> measure (\<lambda>(bound, body, i, s). nat \<lceil>bound\<rceil> - i)"
    by simp
qed

declare for_loop.simps [simp del]

section \<open>shuffle\<close>

text \<open>
  The Fisher-Yates loop of \<open>shuffle\<close>: while \<open>counter > 0\<close>, draw
  \<open>index = floor(Math.random() * counter)\<close>, decrease \<open>counter\<close> and swap
  \<open>array[counter]\<close> with \<open>array[index]\<close>. Since a draw lies in \<open>[0, 1)\<close>, the index
  is below the counter before the decrement, so both accesses are inside the array
  whenever the counter starts at the array's length.
\<close>

fun shuffle_loop :: "source \<Rightarrow> nat \<Rightarrow> nat \<Rightarrow> 'a list \<Rightarrow> 'a list \<times> nat" where
  "shuffle_loop rnd k counter array =
     (if counter > 0 then
        let (u, k) = Math_random rnd k;
            index = nat \<lfloor>u * real counter\<rfloor>;
            counter = counter - 1;
            temp = array ! counter;
            array = array[counter := array ! index];
            array = array[index := temp]
        in shuffle_loop rnd k counter array
      else (array, k))"

declare shuffle_loop.simps [simp del]

definition shuffle :: "source \<Rightarrow> nat \<Rightarrow> 'a list \<Rightarrow> 'a list \<times> nat" where
  "shuffle rnd k array = shuffle_loop rnd k (length array) array"

section \<open>Linear scales\<close>

text \<open>
  Modelled from the spec: \<open>d3.scale.linear().domain([d0, d1]).range([r0, r1])\<close> is a
  function of the d3 library, which is not among the sources. The spec calls it the
  linear map from the domain to the range: the value is brought to \<open>t = (v - d0) / (d1 - d0)\<close>
  and \<open>t\<close> is interpolated between \<open>r0\<close> and \<open>r1\<close>; values outside the domain
  extrapolate.
\<close>

definition scale_linear :: "real \<Rightarrow> real \<Rightarrow> real \<Rightarrow> real \<Rightarrow> real \<Rightarrow> real" where
  "scale_linear d0 d1 r0 r1 v = (let t = (v - d0) / (d1 - d0) in r0 * (1 - t) + r1 * t)"

text \<open>
  Modelled from the spec: the same scale with \<open>.clamp(true)\<close>, which the spec
  describes as clamped: \<open>t\<close> is kept inside \<open>[0, 1]\<close>, so the result stays inside the range.
\<close>

definition scale_linear_clamp :: "real \<Rightarrow> real \<Rightarrow> real \<Rightarrow> real \<Rightarrow> real \<Rightarrow> real" where
  "scale_linear_clamp d0 d1 r0 r1 v =
     (let t = max 0 (min 1 ((v - d0) / (d1 - d0))) in r0 * (1 - t) + r1 * t)"

section \<open>normalRandom\<close>

text \<open>
  The rejection loop \<open>do { v1 = ...; v2 = ...; s = v1 * v1 + v2 * v2 } while (s > 1)\<close>.
  It has no iteration cap: on a source whose pairs are all rejected it never returns,
  which is the value \<open>None\<close>. Otherwise it returns the accepted \<open>v1\<close>, \<open>v2\<close>, \<open>s\<close>
  and the new position in the source.
\<close>

partial_function (option) normalRandom_loop ::
    "source \<Rightarrow> nat \<Rightarrow> (real \<times> real \<times> real \<times> nat) option" where
  "normalRandom_loop rnd k =
     (let v1 = 2 * fst (Math_random rnd k) - 1;
          k = snd (Math_random rnd k);
          v2 = 2 * fst (Math_random rnd k) - 1;
          k = snd (Math_random rnd k);
          s = v1 * v1 + v2 * v2
      in if s > 1 then normalRandom_loop rnd k else Some (v1, v2, s, k))"

text \<open>
  \<open>normalRandom(mean, variance)\<close>. After the loop the source computes
  \<open>mean + Math.sqrt(variance) * (Math.sqrt(-2 * Math.log(s) / s) * v1)\<close>. Two cases
  leave the real numbers and are written out: with \<open>s = 0\<close> (then \<open>v1 = 0\<close> too)
  \<open>Math.log(0)\<close> is \<open>-Infinity\<close>, the quotient by \<open>s\<close> is \<open>Infinity\<close> and its
  product with \<open>v1 = 0\<close> is \<open>NaN\<close>; with a negative variance \<open>Math.sqrt\<close> is \<open>NaN\<close>.
\<close>

definition normalRandom :: "source \<Rightarrow> nat \<Rightarrow> real \<Rightarrow> real \<Rightarrow> (number \<times> nat) option" where
  "normalRandom rnd k mean variance =
     (case normalRandom_loop rnd k of
        None \<Rightarrow> None
      | Some (v1, v2, s, k) \<Rightarrow>
          Some (if s = 0 \<or> variance < 0 then NaN
                else Num (mean + sqrt variance * (sqrt (- 2 * ln s / s) * v1)), k))"

section \<open>The generators\<close>

subsection \<open>classifyTwoGaussData\<close>

text \<open>
  The body of the loop of \<open>genGauss(cx, cy, label)\<close>. The state is \<open>None\<close> once a
  call of \<open>normalRandom\<close> has failed to return.
\<close>

definition genGauss_body ::
    "source \<Rightarrow> real \<Rightarrow> real \<Rightarrow> real \<Rightarrow> real \<Rightarrow> nat \<Rightarrow>
     (Example2D list \<times> nat) option \<Rightarrow> (Example2D list \<times> nat) option" where
  "genGauss_body rnd variance cx cy lab i st =
     (case st of
        None \<Rightarrow> None
      | Some (points, k) \<Rightarrow>
          (case normalRandom rnd k cx variance of
             None \<Rightarrow> None
           | Some (x, k) \<Rightarrow>
               (case normalRandom rnd k cy variance of
                  None \<Rightarrow> None
                | Some (y, k) \<Rightarrow> Some (points @ [\<lparr>ex_x = x, ex_y = y, label = Num lab\<rparr>], k))))"

definition classifyTwoGaussData ::
    "source \<Rightarrow> nat \<Rightarrow> real \<Rightarrow> real \<Rightarrow> (Example2D list \<times> nat) option" where
  "classifyTwoGaussData rnd k numSamples noise =
     (let variance = scale_linear 0 0.5 0.5 4 noise;
          st = for_loop (numSamples / 2) (genGauss_body rnd variance 2 2 1) 0 (Some ([], k));
          st = for_loop (numSamples / 2) (genGauss_body rnd variance (- 2) (- 2) (- 1)) 0 st
      in st)"

subsection \<open>regressPlane\<close>

definition regressPlane_getLabel :: "real \<Rightarrow> real \<Rightarrow> real" where
  "regressPlane_getLabel x y = scale_linear (- 10) 10 (- 1) 1 (x + y)"

definition regressPlane_body ::
    "source \<Rightarrow> real \<Rightarrow> nat \<Rightarrow> Example2D list \<times> nat \<Rightarrow> Example2D list \<times> nat" where
  "regressPlane_body rnd noise i =
     (\<lambda>(points, k).
        let radius = 6;
            (x, k) = randUniform rnd k (- radius) radius;
            (y, k) = randUniform rnd k (- radius) radius;
            (u, k) = randUniform rnd k (- radius) radius;
            noiseX = u * noise;
            (u, k) = randUniform rnd k (- radius) radius;
            noiseY = u * noise;
            lab = regressPlane_getLabel (x + noiseX) (y + noiseY)
        in (points @ [\<lparr>ex_x = Num x, ex_y = Num y, label = Num lab\<rparr>], k))"

definition regressPlane :: "source \<Rightarrow> nat \<Rightarrow> real \<Rightarrow> real \<Rightarrow> Example2D list \<times> nat" where
  "regressPlane rnd k numSamples noise = for_loop numSamples (regressPlane_body rnd noise) 0 ([], k)"

subsection \<open>regressGaussian\<close>

definition gaussians :: "(real \<times> real \<times> real) list" where
  "gaussians =
     [(- 4, 2.5, 1), (0, 2.5, - 1), (4, 2.5, 1), (- 4, - 2.5, - 1), (0, - 2.5, 1), (4, - 2.5, - 1)]"

definition regressGaussian_labelScale :: "real \<Rightarrow> real" where
  "regressGaussian_labelScale = scale_linear_clamp 0 2 1 0"

text \<open>
  \<open>getLabel\<close> of \<open>regressGaussian\<close>: \<open>label\<close> starts at 0 and \<open>forEach\<close> replaces it
  by a centre's value when that value is strictly larger in absolute value.
\<close>

definition regressGaussian_getLabel :: "real \<Rightarrow> real \<Rightarrow> real" where
  "regressGaussian_getLabel x y =
     fold (\<lambda>(cx, cy, sign) lab.
            let newLabel = sign * regressGaussian_labelScale
                  (dist2 \<lparr>px = x, py = y\<rparr> \<lparr>px = cx, py = cy\<rparr>)
            in if \<bar>newLabel\<bar> > \<bar>lab\<bar> then newLabel else lab)
          gaussians 0"

definition regressGaussian_body ::
    "source \<Rightarrow> real \<Rightarrow> nat \<Rightarrow> Example2D list \<times> nat \<Rightarrow> Example2D list \<times> nat" where
  "regressGaussian_body rnd noise i =
     (\<lambda>(points, k).
        let radius = 6;
            (x, k) = randUniform rnd k (- radius) radius;
            (y, k) = randUniform rnd k (- radius) radius;
            (u, k) = randUniform rnd k (- radius) radius;
            noiseX = u * noise;
            (u, k) = randUniform rnd k (- radius) radius;
            noiseY = u * noise;
            lab = regressGaussian_getLabel (x + noiseX) (y + noiseY)
        in (points @ [\<lparr>ex_x = Num x, ex_y = Num y, label = Num lab\<rparr>], k))"

definition regressGaussian :: "source \<Rightarrow> nat \<Rightarrow> real \<Rightarrow> real \<Rightarrow> Example2D list \<times> nat" where
  "regressGaussian rnd k numSamples noise =
     for_loop numSamples (regressGaussian_body rnd noise) 0 ([], k)"

subsection \<open>classifySpiralData\<close>

definition genSpiral_body ::
    "source \<Rightarrow> real \<Rightarrow> real \<Rightarrow> real \<Rightarrow> real \<Rightarrow> nat \<Rightarrow>
     Example2D list \<times> nat \<Rightarrow> Example2D list \<times> nat" where
  "genSpiral_body rnd noise n deltaT lab i =
     (\<lambda>(points, k).
        let r = real i / n * 5;
            t = 1.75 * real i / n * 2 * pi + deltaT;
            (u, k) = randUniform rnd k (- 1) 1;
            x = r * sin t + u * noise;
            (u, k) = randUniform rnd k (- 1) 1;
            y = r * cos t + u * noise
        in (points @ [\<lparr>ex_x = Num x, ex_y = Num y, label = Num lab\<rparr>], k))"

definition classifySpiralData :: "source \<Rightarrow> nat \<Rightarrow> real \<Rightarrow> real \<Rightarrow> Example2D list \<times> nat" where
  "classifySpiralData rnd k numSamples noise =
     (let n = numSamples / 2;
          st = for_loop n (genSpiral_body rnd noise n 0 1) 0 ([], k);
          st = for_loop n (genSpiral_body rnd noise n pi (- 1)) 0 st
      in st)"

subsection \<open>classifyCircleData\<close>

definition getCircleLabel :: "real \<Rightarrow> Point \<Rightarrow> Point \<Rightarrow> real" where
  "getCircleLabel radius p center = (if dist2 p center < radius * 0.5 then 1 else - 1)"

text \<open>
  The two loops of \<open>classifyCircleData\<close> have the same body but for the interval
  \<open>[lo, hi]\<close> the radius \<open>r\<close> is drawn from.
\<close>

definition circle_body ::
    "source \<Rightarrow> real \<Rightarrow> real \<Rightarrow> real \<Rightarrow> real \<Rightarrow> nat \<Rightarrow>
     Example2D list \<times> nat \<Rightarrow> Example2D list \<times> nat" where
  "circle_body rnd noise radius lo hi i =
     (\<lambda>(points, k).
        let (r, k) = randUniform rnd k lo hi;
            (angle, k) = randUniform rnd k 0 (2 * pi);
            x = r * sin angle;
            y = r * cos angle;
            (u, k) = randUniform rnd k (- radius) radius;
            noiseX = u * noise;
            (u, k) = randUniform rnd k (- radius) radius;
            noiseY = u * noise;
            lab = getCircleLabel radius \<lparr>px = x + noiseX, py = y + noiseY\<rparr> \<lparr>px = 0, py = 0\<rparr>
        in (points @ [\<lparr>ex_x = Num x, ex_y = Num y, label = Num lab\<rparr>], k))"

definition classifyCircleData :: "source \<Rightarrow> nat \<Rightarrow> real \<Rightarrow> real \<Rightarrow> Example2D list \<times> nat" where
  "classifyCircleData rnd k numSamples noise =
     (let radius = 5;
          st = for_loop (numSamples / 2) (circle_body rnd noise radius 0 (radius * 0.5)) 0 ([], k);
          st = for_loop (numSamples / 2) (circle_body rnd noise radius (radius * 0.7) radius) 0 st
      in st)"

text \<open>
  The label of \<open>classifyCircleData\<close> compares a rounded square root with
  \<open>radius * 0.5\<close>, so near the circle it depends on the rounding of every operation that
  leads to it. The following model of the same function carries that rounding: each
  arithmetic operation of the source is followed by \<open>fl\<close>, \<open>Math.sqrt\<close> is the
  correctly rounded square root, and \<open>Math.sin\<close> and \<open>Math.cos\<close>, whose accuracy the
  language leaves to the engine, are the parameters \<open>msin\<close> and \<open>mcos\<close>. The model over
  the reals above serves the properties that rounding does not touch: the number of
  examples, the set of labels, and the draws the coordinates depend on.
\<close>

text \<open>\<open>Math.PI\<close>: the double nearest to \<open>\<pi>\<close>, 3.141592653589793.\<close>

definition Math_PI :: real where
  "Math_PI = 884279719003555 / 281474976710656"

definition randUniform_fp :: "source \<Rightarrow> nat \<Rightarrow> real \<Rightarrow> real \<Rightarrow> real \<times> nat" where
  "randUniform_fp rnd k a b =
     (let (u, k) = Math_random rnd k in (fl (fl (u * fl (b - a)) + a), k))"

definition dist_fp :: "Point \<Rightarrow> Point \<Rightarrow> real" where
  "dist_fp a b =
     (let dx = fl (px a - px b); dy = fl (py a - py b)
      in fl (sqrt (fl (fl (dx * dx) + fl (dy * dy)))))"

definition getCircleLabel_fp :: "real \<Rightarrow> Point \<Rightarrow> Point \<Rightarrow> real" where
  "getCircleLabel_fp radius p center =
     (if dist_fp p center < fl (radius * 0.5) then 1 else - 1)"

definition circle_body_fp ::
    "(real \<Rightarrow> real) \<Rightarrow> (real \<Rightarrow> real) \<Rightarrow> source \<Rightarrow> real \<Rightarrow> real \<Rightarrow> real \<Rightarrow> real \<Rightarrow> nat \<Rightarrow>
     Example2D list \<times> nat \<Rightarrow> Example2D list \<times> nat" where
  "circle_body_fp msin mcos rnd noise radius lo hi i =
     (\<lambda>(points, k).
        let (r, k) = randUniform_fp rnd k lo hi;
            (angle, k) = randUniform_fp rnd k 0 (fl (2 * Math_PI));
            x = fl (r * msin angle);
            y = fl (r * mcos angle);
            (u, k) = randUniform_fp rnd k (- radius) radius;
            noiseX = fl (u * noise);
            (u, k) = randUniform_fp rnd k (- radius) radius;
            noiseY = fl (u * noise);
            lab = getCircleLabel_fp radius
                    \<lparr>px = fl (x + noiseX), py = fl (y + noiseY)\<rparr> \<lparr>px = 0, py = 0\<rparr>
        in (points @ [\<lparr>ex_x = Num x, ex_y = Num y, label = Num lab\<rparr>], k))"

definition classifyCircleData_fp ::
    "(real \<Rightarrow> real) \<Rightarrow> (real \<Rightarrow> real) \<Rightarrow> source \<Rightarrow> nat \<Rightarrow> real \<Rightarrow> real \<Rightarrow>
     Example2D list \<times> nat" where
  "classifyCircleData_fp msin mcos rnd k numSamples noise =
     (let radius = 5;
          st = for_loop (numSamples / 2)
                 (circle_body_fp msin mcos rnd noise radius 0 (fl (radius * 0.5))) 0 ([], k);
          st = for_loop (numSamples / 2)
                 (circle_body_fp msin mcos rnd noise radius (fl (radius * fl 0.7)) radius) 0 st
      in st)"

subsection \<open>classifyXORData\<close>

definition getXORLabel :: "Point \<Rightarrow> real" where
  "getXORLabel p = (if px p * py p \<ge> 0 then 1 else - 1)"

definition xor_body ::
    "source \<Rightarrow> real \<Rightarrow> nat \<Rightarrow> Example2D list \<times> nat \<Rightarrow> Example2D list \<times> nat" where
  "xor_body rnd noise i =
     (\<lambda>(points, k).
        let (x, k) = randUniform rnd k (- 5) 5;
            padding = 0.3;
            x = x + (if x > 0 then padding else - padding);
            (y, k) = randUniform rnd k (- 5) 5;
            y = y + (if y > 0 then padding else - padding);
            (u, k) = randUniform rnd k (- 5) 5;
            noiseX = u * noise;
            (u, k) = randUniform rnd k (- 5) 5;
            noiseY = u * noise;
            lab = getXORLabel \<lparr>px = x + noiseX, py = y + noiseY\<rparr>
        in (points @ [\<lparr>ex_x = Num x, ex_y = Num y, label = Num lab\<rparr>], k))"

definition classifyXORData :: "source \<Rightarrow> nat \<Rightarrow> real \<Rightarrow> real \<Rightarrow> Example2D list \<times> nat" where
  "classifyXORData rnd k numSamples noise = for_loop numSamples (xor_body rnd noise) 0 ([], k)"

subsection \<open>makeClassifyDataWithLines and the two glyph generators\<close>

definition lines_body ::
    "source \<Rightarrow> real \<Rightarrow> real \<Rightarrow> PropertyForLines \<Rightarrow> nat \<Rightarrow>
     Example2D list \<times> nat \<Rightarrow> Example2D list \<times> nat" where
  "lines_body rnd noise randRadius prop j =
     (\<lambda>(points, k).
        let (p, k) = randOnLine rnd k (p0 prop) (p1 prop);
            (u, k) = randUniform rnd k (- randRadius) randRadius;
            noiseX = u * noise;
            (u, k) = randUniform rnd k (- randRadius) randRadius;
            noiseY = u * noise
        in (points @ [\<lparr>ex_x = Num (px p + noiseX), ex_y = Num (py p + noiseY),
                        label = Num (prop_label prop)\<rparr>], k))"

text \<open>
  \<open>sumOfRatio = props.reduce((sum, x) => sum + x.ratio, 0)\<close>. The sum decides the
  quotas, so every addition is rounded.
\<close>

definition sumOfRatio :: "PropertyForLines list \<Rightarrow> real" where
  "sumOfRatio props = foldl (\<lambda>sum x. fl (sum + ratio x)) 0 props"

text \<open>
  \<open>makeClassifyDataWithLines\<close>. The quota of a descriptor is
  \<open>Math.floor(prop.ratio / sumOfRatio * numSamples)\<close>, where the division and the
  multiplication are rounded one after the other; it is the number of examples of the
  descriptor, so the rounding is part of the model. With \<open>sumOfRatio = 0\<close> the quotient
  is not a real number: it is \<open>+Infinity\<close> when \<open>prop.ratio * numSamples > 0\<close>, and
  then the inner loop never ends (\<open>None\<close>); otherwise it is \<open>NaN\<close> or \<open>-Infinity\<close>,
  the test \<open>j < num\<close> is false and the descriptor adds no point.
\<close>

definition makeClassifyDataWithLines ::
    "source \<Rightarrow> nat \<Rightarrow> real \<Rightarrow> real \<Rightarrow> PropertyForLines list \<Rightarrow> real \<Rightarrow>
     (Example2D list \<times> nat) option" where
  "makeClassifyDataWithLines rnd k numSamples noise props randRadius =
     (if sumOfRatio props = 0 then
        (if list_ex (\<lambda>prop. ratio prop * numSamples > 0) props then None else Some ([], k))
      else
        Some (fold (\<lambda>prop st.
                 let num = real_of_int \<lfloor>fl (fl (ratio prop / sumOfRatio props) * numSamples)\<rfloor>
                 in for_loop num (lines_body rnd noise randRadius prop) 0 st)
               props ([], k)))"

text \<open>
  A descriptor literal \<open>{label, ratio, p0, p1}\<close>. The ratio enters the quotas, so it is
  the double its decimal literal denotes.
\<close>

definition mkProp :: "real \<Rightarrow> real \<Rightarrow> real \<times> real \<Rightarrow> real \<times> real \<Rightarrow> PropertyForLines" where
  "mkProp l r a b =
     \<lparr>prop_label = l, ratio = fl r, p0 = \<lparr>px = fst a, py = snd a\<rparr>, p1 = \<lparr>px = fst b, py = snd b\<rparr>\<rparr>"

definition oxtu_props :: "PropertyForLines list" where
  "oxtu_props =
     [mkProp 1 1.0 (- 4.0, 3.0) (1.5, 3.0),
      mkProp 1 1.0 (- 0.8, 4.5) (- 0.8, - 2.0),
      mkProp 1 0.08 (- 0.9, - 1.6) (- 2.0, - 1.0),
      mkProp (- 1) 0.8 (- 1.6, 2.0) (- 4.0, - 1.0),
      mkProp (- 1) 0.2 (1.7, - 1.5) (2.2, - 2.5),
      mkProp (- 1) 0.2 (3.0, - 1.0) (3.5, - 2.0),
      mkProp 1 0.2 (5.0, - 1.0) (4.7, - 3.0),
      mkProp 1 0.3 (4.7, - 3.0) (2.0, - 4.6)]"

definition classifyOxtuData ::
    "source \<Rightarrow> nat \<Rightarrow> real \<Rightarrow> real \<Rightarrow> (Example2D list \<times> nat) option" where
  "classifyOxtuData rnd k numSamples noise =
     makeClassifyDataWithLines rnd k numSamples noise oxtu_props 3"

definition java_props :: "PropertyForLines list" where
  "java_props =
     [mkProp 1 1.0 (- 4.0, 0.5) (- 3.0, 0.0),
      mkProp (- 1) 1.0 (- 4.0, 2.0) (- 3.0, 1.0),
      mkProp (- 1) 1.5 (- 1.0, 1.0) (- 2.0, - 1.0),
      mkProp (- 1) 1.5 (- 4.0, - 1.7) (- 2.0, - 1.0),
      mkProp 1 0.5 (- 2.0, 3.0) (- 2.0, 2.0),
      mkProp (- 1) 0.5 (- 1.0, 3.0) (- 1.0, 2.0),
      mkProp (- 1) 1.0 (- 1.5, - 3.5) (0.5, - 2.5),
      mkProp (- 1) 0.5 (- 0.0, - 3.5) (0.5, - 2.5),
      mkProp 1 0.8 (- 1.2, - 2.0) (- 0.4, - 4.5),
      mkProp 1 0.5 (2.0, 1.0) (2.0, 0.0),
      mkProp 1 1.0 (1.0, - 2.0) (2.0, 0.0),
      mkProp (- 1) 1.5 (3.5, 1.0) (4.5, - 2.0),
      mkProp 1 0.5 (3.0, 3.0) (3.0, 2.0),
      mkProp (- 1) 0.5 (4.0, 3.0) (4.0, 2.0)]"

definition classifyJavaData ::
    "source \<Rightarrow> nat \<Rightarrow> real \<Rightarrow> real \<Rightarrow> (Example2D list \<times> nat) option" where
  "classifyJavaData rnd k numSamples noise =
     makeClassifyDataWithLines rnd k numSamples noise java_props 3"

section \<open>Vocabulary of the statements\<close>

text \<open>The value \<open>randUniform(a, b)\<close> returns from the draw at position \<open>k\<close> of the source.\<close>

definition draw_at :: "source \<Rightarrow> nat \<Rightarrow> real \<Rightarrow> real \<Rightarrow> real" where
  "draw_at rnd k a b = fst (randUniform rnd k a b)"

text \<open>The example a loop body pushes when it starts at position \<open>k\<close> of the source.\<close>

definition pushed :: "(Example2D list \<times> nat \<Rightarrow> Example2D list \<times> nat) \<Rightarrow> nat \<Rightarrow> Example2D" where
  "pushed step k = last (fst (step ([], k)))"

text \<open>The padding step of \<open>classifyXORData\<close>: \<open>v += v > 0 ? padding : -padding\<close>.\<close>

definition pad :: "real \<Rightarrow> real" where
  "pad v = v + (if v > 0 then 0.3 else - 0.3)"

text \<open>
  The pair of draws at positions \<open>k\<close> and \<open>k + 1\<close> ends the rejection loop of
  \<open>normalRandom\<close>: its \<open>s\<close> is not above 1.
\<close>

definition accepted :: "source \<Rightarrow> nat \<Rightarrow> bool" where
  "accepted rnd k =
     (let v1 = 2 * Rep_draw (rnd k) - 1; v2 = 2 * Rep_draw (rnd (Suc k)) - 1
      in v1 * v1 + v2 * v2 \<le> 1)"

text \<open>
  From every position on, the rejection loop meets a pair it accepts: the condition under
  which \<open>normalRandom\<close> returns wherever it is called.
\<close>

definition eventually_accepts :: "source \<Rightarrow> bool" where
  "eventually_accepts rnd = (\<forall>k. \<exists>j. accepted rnd (k + 2 * j))"

text \<open>The examples of a generator that may not return: none when it does not.\<close>

definition emitted :: "(Example2D list \<times> nat) option \<Rightarrow> Example2D list" where
  "emitted r = (case r of None \<Rightarrow> [] | Some (points, k) \<Rightarrow> points)"

text \<open>A classification label is \<open>+1\<close> or \<open>-1\<close>.\<close>

definition class_label :: "number \<Rightarrow> bool" where
  "class_label l = (l = Num 1 \<or> l = Num (- 1))"

text \<open>The coordinates of an example.\<close>

definition coords :: "Example2D \<Rightarrow> number \<times> number" where
  "coords e = (ex_x e, ex_y e)"

text \<open>The coordinates \<open>(r * sin(angle), r * cos(angle))\<close> of a point of \<open>classifyCircleData\<close>.\<close>

definition polar :: "real \<Rightarrow> real \<Rightarrow> number \<times> number" where
  "polar r angle = (Num (r * sin angle), Num (r * cos angle))"

text \<open>A source that repeats a list of draws forever.\<close>

definition cycle_source :: "real list \<Rightarrow> source" where
  "cycle_source rs = (\<lambda>k. Abs_draw (rs ! (k mod length rs)))"

text \<open>
  The geometric rule of \<open>classifyXORData\<close> on the emitted point: \<open>+1\<close> when
  \<open>x * y \<ge> 0\<close> (so also when the product is 0), \<open>-1\<close> otherwise.
\<close>

definition xor_rule :: "Example2D \<Rightarrow> bool" where
  "xor_rule e =
     (case (ex_x e, ex_y e) of
        (Num a, Num b) \<Rightarrow> label e = Num (if a * b \<ge> 0 then 1 else - 1)
      | _ \<Rightarrow> False)"

text \<open>
  The geometric rule the specification states for \<open>classifyCircleData\<close>, on the
  emitted point: \<open>+1\<close> exactly when its distance to the origin is below
  \<open>0.5 * radius\<close>, with \<open>radius = 5\<close>.
\<close>

definition circle_rule :: "Example2D \<Rightarrow> bool" where
  "circle_rule e =
     (case (ex_x e, ex_y e) of
        (Num a, Num b) \<Rightarrow> label e = Num (if sqrt (a * a + b * b) < 0.5 * 5 then 1 else - 1)
      | _ \<Rightarrow> False)"

text \<open>
  The rule of \<open>getCircleLabel\<close> on the emitted point: \<open>+1\<close> exactly when the distance
  as \<open>dist\<close> computes it, the rounded square root of the rounded sum of the rounded
  squares, is below \<open>0.5 * radius\<close>.
\<close>

definition circle_rule_fp :: "Example2D \<Rightarrow> bool" where
  "circle_rule_fp e =
     (case (ex_x e, ex_y e) of
        (Num a, Num b) \<Rightarrow>
          label e = Num (if fl (sqrt (fl (fl (a * a) + fl (b * b)))) < 0.5 * 5 then 1 else - 1)
      | _ \<Rightarrow> False)"

text \<open>An engine whose \<open>Math.sin\<close> and \<open>Math.cos\<close> return the correctly rounded value.\<close>

definition sin_rounded :: "real \<Rightarrow> real" where
  "sin_rounded a = fl (sin a)"

definition cos_rounded :: "real \<Rightarrow> real" where
  "cos_rounded a = fl (cos a)"

text \<open>
  The example of \<open>genSpiral(deltaT, label)\<close> at index \<open>i\<close> when the noise terms
  vanish: radius \<open>r = i / n * 5\<close>, angle \<open>t = 1.75 * i / n * 2 * \<pi> + deltaT\<close>.
\<close>

definition spiral_point :: "real \<Rightarrow> real \<Rightarrow> real \<Rightarrow> nat \<Rightarrow> Example2D" where
  "spiral_point n deltaT lab i =
     (let r = real i / n * 5; t = 1.75 * real i / n * 2 * pi + deltaT
      in \<lparr>ex_x = Num (r * sin t), ex_y = Num (r * cos t), label = Num lab\<rparr>)"


text \<open>
  The quota of a descriptor in \<open>makeClassifyDataWithLines\<close>:
  \<open>Math.floor(prop.ratio / sumOfRatio * numSamples)\<close>.
\<close>

definition quota :: "PropertyForLines list \<Rightarrow> real \<Rightarrow> PropertyForLines \<Rightarrow> int" where
  "quota props numSamples prop = \<lfloor>fl (fl (ratio prop / sumOfRatio props) * numSamples)\<rfloor>"



section \<open>Facts about rounding\<close>

lemma round_even_eqI:
  assumes "of_int n - 1 / 2 < q" "q < of_int n + 1 / 2"
  shows "round_even q = n"
proof -
  have "\<lfloor>q\<rfloor> = n \<or> \<lfloor>q\<rfloor> = n - 1"
    using assms by linarith
  then show ?thesis
  proof
    assume "\<lfloor>q\<rfloor> = n"
    with assms show ?thesis
      by (simp add: round_even_def)
  next
    assume "\<lfloor>q\<rfloor> = n - 1"
    with assms show ?thesis
      by (simp add: round_even_def)
  qed
qed

lemma round_even_of_int: "round_even (of_int n) = n"
  by (rule round_even_eqI) simp_all

lemma round_even_tie:
  assumes "q = of_int n + 1 / 2 \<or> q = of_int n - 1 / 2" "even n"
  shows "round_even q = n"
proof -
  from assms(1) show ?thesis
  proof
    assume q: "q = of_int n + 1 / 2"
    then have "\<lfloor>q\<rfloor> = n"
      by linarith
    with q assms(2) show ?thesis
      by (simp add: round_even_def)
  next
    assume q: "q = of_int n - 1 / 2"
    then have "\<lfloor>q\<rfloor> = n - 1"
      by linarith
    with q assms(2) show ?thesis
      by (simp add: round_even_def)
  qed
qed

lemma floor_log2_eq:
  assumes "2 powi e \<le> x" "x < 2 powi (e + 1)"
  shows "\<lfloor>log 2 x\<rfloor> = e"
proof -
  have "(0 :: real) < 2 powi e"
    by simp
  with assms(1) have pos: "0 < x"
    by linarith
  have 1: "(2 :: real) powr of_int e = 2 powi e"
    by (rule powr_real_of_int') simp_all
  have "(2 :: real) powr of_int (e + 1) = 2 powi (e + 1)"
    by (rule powr_real_of_int') simp_all
  note 2 = this
  have "\<lfloor>log 2 x\<rfloor> = e \<longleftrightarrow> 2 powr of_int e \<le> x \<and> x < 2 powr of_int (e + 1)"
    using pos by (intro floor_log_eq_powr_iff) simp_all
  with assms show ?thesis
    unfolding 1 2 by blast
qed

lemma fl_0: "fl 0 = 0"
  by (simp add: fl_def)

lemma fl_eqI:
  assumes "2 powi e \<le> \<bar>x\<bar>" "\<bar>x\<bar> < 2 powi (e + 1)"
    and "round_even (x / 2 powi (e - 52)) = n" and "y = of_int n * 2 powi (e - 52)"
  shows "fl x = y"
proof -
  have "(0 :: real) < 2 powi e"
    by simp
  with assms(1) have "x \<noteq> 0"
    by linarith
  moreover have "\<lfloor>log 2 \<bar>x\<bar>\<rfloor> = e"
    using assms(1,2) by (rule floor_log2_eq)
  ultimately show ?thesis
    using assms(3,4) by (simp add: fl_def)
qed


lemma round_even_bounds: "\<lfloor>q\<rfloor> \<le> round_even q" "round_even q \<le> \<lfloor>q\<rfloor> + 1"
  by (simp_all add: round_even_def Let_def)

lemma round_even_ge:
  assumes "of_int n \<le> q"
  shows "n \<le> round_even q"
proof -
  from assms have "n \<le> \<lfloor>q\<rfloor>"
    by (simp only: le_floor_iff)
  with round_even_bounds(1) [of q] show ?thesis
    by linarith
qed

lemma round_even_le:
  assumes "q \<le> of_int n"
  shows "round_even q \<le> n"
proof (cases "q = of_int n")
  case True
  then show ?thesis
    by (simp add: round_even_of_int)
next
  case False
  with assms have "q < of_int n"
    by simp
  then have "\<lfloor>q\<rfloor> < n"
    by (simp only: floor_less_iff)
  then have "\<lfloor>q\<rfloor> + 1 \<le> n"
    by simp
  with round_even_bounds(2) [of q] show ?thesis
    by linarith
qed

lemma fl_nonneg:
  assumes "0 \<le> x"
  shows "0 \<le> fl x"
proof (cases "x = 0")
  case True
  then show ?thesis by (simp add: fl_0)
next
  case False
  define e where "e = \<lfloor>log 2 \<bar>x\<bar>\<rfloor> - 52"
  have "of_int 0 \<le> x / 2 powi e"
    using assms by simp
  then have "0 \<le> round_even (x / 2 powi e)"
    by (rule round_even_ge)
  then have "0 \<le> of_int (round_even (x / 2 powi e)) * (2 :: real) powi e"
    by simp
  with False show ?thesis
    by (simp add: fl_def e_def Let_def)
qed

lemma fl_nonpos:
  assumes "x \<le> 0"
  shows "fl x \<le> 0"
proof (cases "x = 0")
  case True
  then show ?thesis by (simp add: fl_0)
next
  case False
  define e where "e = \<lfloor>log 2 \<bar>x\<bar>\<rfloor> - 52"
  have "x / 2 powi e \<le> of_int 0"
    using assms by (simp add: divide_nonpos_pos)
  then have "round_even (x / 2 powi e) \<le> 0"
    by (rule round_even_le)
  then have "of_int (round_even (x / 2 powi e)) * (2 :: real) powi e \<le> 0"
    by (simp add: mult_nonpos_nonneg)
  with False show ?thesis
    by (simp add: fl_def e_def Let_def)
qed

lemma floor_log2_bounds:
  assumes "0 < x"
  shows "2 powi \<lfloor>log 2 x\<rfloor> \<le> x" "x < 2 powi (\<lfloor>log 2 x\<rfloor> + 1)"
proof -
  have 1: "(2 :: real) powr of_int e = 2 powi e" for e
    by (rule powr_real_of_int') simp_all
  have "\<lfloor>log 2 x\<rfloor> = \<lfloor>log 2 x\<rfloor> \<longleftrightarrow>
      2 powr of_int \<lfloor>log 2 x\<rfloor> \<le> x \<and> x < 2 powr of_int (\<lfloor>log 2 x\<rfloor> + 1)"
    using assms by (intro floor_log_eq_powr_iff) simp_all
  then show "2 powi \<lfloor>log 2 x\<rfloor> \<le> x" "x < 2 powi (\<lfloor>log 2 x\<rfloor> + 1)"
    unfolding 1 by simp_all
qed

lemma fl_pos:
  assumes "0 < x"
  shows "0 < fl x"
proof -
  define e where "e = \<lfloor>log 2 \<bar>x\<bar>\<rfloor> - 52"
  have "2 powi (e + 52) \<le> x"
    using floor_log2_bounds(1) [of x] assms by (simp add: e_def)
  moreover have "(2 :: real) powi e \<le> 2 powi (e + 52)"
    by (rule power_int_increasing) simp_all
  ultimately have "1 * 2 powi e \<le> x"
    by simp
  then have "of_int 1 \<le> x / 2 powi e"
    by (simp add: pos_le_divide_eq)
  then have "1 \<le> round_even (x / 2 powi e)"
    by (rule round_even_ge)
  then have "0 < of_int (round_even (x / 2 powi e)) * (2 :: real) powi e"
    by simp
  with assms show ?thesis
    by (simp add: fl_def e_def Let_def)
qed


lemma powi_shift: "(2 :: real) powi (e + int k) = 2 powi e * 2 ^ k"
  by (simp add: power_int_add)

lemma fl_mantissa:
  assumes "x \<noteq> 0"
  defines "e \<equiv> \<lfloor>log 2 \<bar>x\<bar>\<rfloor> - 52"
  defines "n \<equiv> round_even (x / 2 powi e)"
  shows "fl x = of_int n * 2 powi e" "2 ^ 52 \<le> \<bar>n\<bar>" "\<bar>n\<bar> \<le> 2 ^ 53"
proof -
  show "fl x = of_int n * 2 powi e"
    using assms(1) by (simp add: fl_def e_def n_def Let_def)
  have pos: "0 < \<bar>x\<bar>"
    using assms(1) by simp
  have "2 powi (e + int 52) \<le> \<bar>x\<bar>" "\<bar>x\<bar> < 2 powi (e + int 53)"
    using floor_log2_bounds [OF pos] by (simp_all add: e_def add.commute)
  then have b: "2 powi e * 2 ^ 52 \<le> \<bar>x\<bar>" "\<bar>x\<bar> < 2 powi e * 2 ^ 53"
    unfolding powi_shift by simp_all
  have p: "(0 :: real) < 2 powi e"
    by simp
  from b p have q: "2 ^ 52 \<le> \<bar>x\<bar> / 2 powi e" "\<bar>x\<bar> / 2 powi e < 2 ^ 53"
    by (simp_all add: pos_le_divide_eq pos_divide_less_eq mult.commute)
  show "2 ^ 52 \<le> \<bar>n\<bar>" "\<bar>n\<bar> \<le> 2 ^ 53"
  proof -
    consider "0 < x" | "x < 0"
      using assms(1) by linarith
    then have "2 ^ 52 \<le> \<bar>n\<bar> \<and> \<bar>n\<bar> \<le> 2 ^ 53"
    proof cases
      case 1
      with q have "of_int (2 ^ 52) \<le> x / 2 powi e" "x / 2 powi e \<le> of_int (2 ^ 53)"
        by simp_all
      then have "2 ^ 52 \<le> n" "n \<le> 2 ^ 53"
        unfolding n_def using round_even_ge round_even_le by blast+
      then show ?thesis
        by simp
    next
      case 2
      then have "\<bar>x\<bar> / 2 powi e = - (x / 2 powi e)"
        by simp
      with q have "x / 2 powi e \<le> of_int (- (2 ^ 52))" "of_int (- (2 ^ 53)) \<le> x / 2 powi e"
        by simp_all
      then have "n \<le> - (2 ^ 52)" "- (2 ^ 53) \<le> n"
        unfolding n_def using round_even_ge round_even_le by blast+
      then show ?thesis
        by simp
    qed
    then show "2 ^ 52 \<le> \<bar>n\<bar>" "\<bar>n\<bar> \<le> 2 ^ 53"
      by simp_all
  qed
qed

lemma fl_exact:
  assumes "2 ^ 52 \<le> \<bar>n\<bar>" "\<bar>n\<bar> \<le> 2 ^ 53"
  shows "fl (of_int n * 2 powi e) = of_int n * 2 powi e"
proof (cases "\<bar>n\<bar> = 2 ^ 53")
  case False
  with assms(2) have lt: "\<bar>n\<bar> < 2 ^ 53"
    by simp
  have a: "\<bar>of_int n * (2 :: real) powi e\<bar> = 2 powi e * of_int \<bar>n\<bar>"
    by (simp add: abs_mult)
  have lo: "(2 :: real) ^ 52 \<le> of_int \<bar>n\<bar>"
    using assms(1) by (metis of_int_le_iff of_int_numeral of_int_power)
  have hi: "of_int \<bar>n\<bar> < (2 :: real) ^ 53"
    using lt by (metis of_int_less_iff of_int_numeral of_int_power)
  show ?thesis
  proof (rule fl_eqI [where e = "e + int 52" and n = n])
    show "2 powi (e + int 52) \<le> \<bar>of_int n * (2 :: real) powi e\<bar>"
      unfolding powi_shift a using lo by (intro mult_left_mono) simp_all
    have "2 powi e * of_int \<bar>n\<bar> < 2 powi e * (2 :: real) ^ 53"
      using hi by (intro mult_strict_left_mono) simp_all
    moreover have "(2 :: real) powi (e + int 52 + 1) = 2 powi (e + int 53)"
      by (rule arg_cong [where f = "\<lambda>k. 2 powi k"]) simp
    ultimately show "\<bar>of_int n * (2 :: real) powi e\<bar> < 2 powi (e + int 52 + 1)"
      unfolding a by (simp only: powi_shift)
    show "round_even (of_int n * 2 powi e / 2 powi (e + int 52 - 52)) = n"
      by (simp add: round_even_of_int)
    show "of_int n * (2 :: real) powi e = of_int n * 2 powi (e + int 52 - 52)"
      by simp
  qed
next
  case True
  then obtain m where m: "n = 2 * m" "\<bar>m\<bar> = 2 ^ 52"
    by (cases "0 \<le> n") (auto intro: that [of "2 ^ 52"] that [of "- (2 ^ 52)"])
  have y: "of_int n * (2 :: real) powi e = of_int m * 2 powi (e + 1)"
    by (simp add: m(1) power_int_add)
  have a: "\<bar>of_int m * (2 :: real) powi (e + 1)\<bar> = 2 powi (e + 1) * 2 ^ 52"
    using m(2) by (simp add: abs_mult flip: of_int_abs)
  show ?thesis
    unfolding y
  proof (rule fl_eqI [where e = "e + 1 + int 52" and n = m])
    show "2 powi (e + 1 + int 52) \<le> \<bar>of_int m * (2 :: real) powi (e + 1)\<bar>"
      unfolding a powi_shift by simp
    have "(2 :: real) powi (e + 1 + int 52 + 1) = 2 powi (e + 1 + int 53)"
      by (rule arg_cong [where f = "\<lambda>k. 2 powi k"]) simp
    moreover have "2 powi (e + 1) * (2 :: real) ^ 52 < 2 powi (e + 1) * 2 ^ 53"
      by (intro mult_strict_left_mono) simp_all
    ultimately show "\<bar>of_int m * (2 :: real) powi (e + 1)\<bar> < 2 powi (e + 1 + int 52 + 1)"
      unfolding a by (simp only: powi_shift)
    have k: "e + 1 + int 52 - 52 = e + 1"
      by simp
    show "round_even (of_int m * 2 powi (e + 1) / 2 powi (e + 1 + int 52 - 52)) = m"
      unfolding k by (simp add: round_even_of_int)
    show "of_int m * (2 :: real) powi (e + 1) = of_int m * 2 powi (e + 1 + int 52 - 52)"
      unfolding k by (rule refl)
  qed
qed

lemma fl_idem: "fl (fl x) = fl x"
proof (cases "x = 0")
  case True
  then show ?thesis by (simp add: fl_0)
next
  case False
  from fl_mantissa [OF False] fl_exact show ?thesis
    by metis
qed

subsection \<open>Roundings of the literals, sums and quotas of the descriptor lists\<close>

lemma fl_lines_1: "fl 1 = 1"
  by (rule fl_eqI [where e = 0 and n = 4503599627370496]) (simp_all add: round_even_eqI)

lemma fl_lines_2: "fl (2 / 25) = 5764607523034235 / 72057594037927936"
  by (rule fl_eqI [where e = "- 4" and n = 5764607523034235]) (simp_all add: round_even_eqI)

lemma fl_lines_3: "fl (4 / 5) = 3602879701896397 / 4503599627370496"
  by (rule fl_eqI [where e = "- 1" and n = 7205759403792794]) (simp_all add: round_even_eqI)

lemma fl_lines_4: "fl (1 / 5) = 3602879701896397 / 18014398509481984"
  by (rule fl_eqI [where e = "- 3" and n = 7205759403792794]) (simp_all add: round_even_eqI)

lemma fl_lines_5: "fl (3 / 10) = 5404319552844595 / 18014398509481984"
  by (rule fl_eqI [where e = "- 2" and n = 5404319552844595]) (simp_all add: round_even_eqI)

lemma fl_lines_6: "fl 2 = 2"
  by (rule fl_eqI [where e = 1 and n = 4503599627370496]) (simp_all add: round_even_eqI)

lemma fl_lines_7: "fl (149879795598890107 / 72057594037927936) = 1170935903116329 / 562949953421312"
  by (rule fl_eqI [where e = 1 and n = 4683743612465316]) (simp_all add: round_even_eqI)

lemma fl_lines_8: "fl (12970366926827029 / 4503599627370496) = 3242591731706757 / 1125899906842624"
  by (rule fl_eqI [where e = 1 and n = 6485183463413514]) (simp_all add: round_even_tie)

lemma fl_lines_9: "fl (55484347409204509 / 18014398509481984) = 1733885856537641 / 562949953421312"
  by (rule fl_eqI [where e = 1 and n = 6935543426150564]) (simp_all add: round_even_eqI)

lemma fl_lines_10: "fl (59087227111100909 / 18014398509481984) = 3692951694443807 / 1125899906842624"
  by (rule fl_eqI [where e = 1 and n = 7385903388887614]) (simp_all add: round_even_eqI)

lemma fl_lines_11: "fl (62690106812997309 / 18014398509481984) = 979532918953083 / 281474976710656"
  by (rule fl_eqI [where e = 1 and n = 7836263351624664]) (simp_all add: round_even_eqI)

lemma fl_lines_12: "fl (68094426365841907 / 18014398509481984) = 4255901647865119 / 1125899906842624"
  by (rule fl_eqI [where e = 1 and n = 8511803295730238]) (simp_all add: round_even_eqI)

lemma fl_lines_13: "fl (5764607523034235 / 72057594037927936) = 5764607523034235 / 72057594037927936"
  by (rule fl_eqI [where e = "- 4" and n = 5764607523034235]) (simp_all add: round_even_eqI)

lemma fl_lines_14: "fl (3602879701896397 / 4503599627370496) = 3602879701896397 / 4503599627370496"
  by (rule fl_eqI [where e = "- 1" and n = 7205759403792794]) (simp_all add: round_even_eqI)

lemma fl_lines_15: "fl (3602879701896397 / 18014398509481984) = 3602879701896397 / 18014398509481984"
  by (rule fl_eqI [where e = "- 3" and n = 7205759403792794]) (simp_all add: round_even_eqI)

lemma fl_lines_16: "fl (5404319552844595 / 18014398509481984) = 5404319552844595 / 18014398509481984"
  by (rule fl_eqI [where e = "- 2" and n = 5404319552844595]) (simp_all add: round_even_eqI)

lemma fl_lines_17: "fl (4255901647865119 / 1125899906842624) = 4255901647865119 / 1125899906842624"
  by (rule fl_eqI [where e = 1 and n = 8511803295730238]) (simp_all add: round_even_eqI)

lemma fl_lines_18: "fl (1125899906842624 / 4255901647865119) = 2382856945698675 / 9007199254740992"
  by (rule fl_eqI [where e = "- 2" and n = 4765713891397350]) (simp_all add: round_even_eqI)

lemma fl_lines_19: "fl (11914284728493375 / 4503599627370496) = 186160698882709 / 70368744177664"
  by (rule fl_eqI [where e = 1 and n = 5957142364246688]) (simp_all add: round_even_tie)

lemma fl_lines_20: "fl (5764607523034235 / 272377705463367616) = 95314277827947 / 4503599627370496"
  by (rule fl_eqI [where e = "- 6" and n = 6100113780988608]) (simp_all add: round_even_eqI)

lemma fl_lines_21: "fl (476571389139735 / 2251799813685248) = 476571389139735 / 2251799813685248"
  by (rule fl_eqI [where e = "- 3" and n = 7625142226235760]) (simp_all add: round_even_eqI)

lemma fl_lines_22: "fl (3602879701896397 / 17023606591460476) = 476571389139735 / 2251799813685248"
  by (rule fl_eqI [where e = "- 3" and n = 7625142226235760]) (simp_all add: round_even_eqI)

lemma fl_lines_23: "fl (2382856945698675 / 1125899906842624) = 2382856945698675 / 1125899906842624"
  by (rule fl_eqI [where e = 1 and n = 4765713891397350]) (simp_all add: round_even_eqI)

lemma fl_lines_24: "fl (3602879701896397 / 68094426365841904) = 476571389139735 / 9007199254740992"
  by (rule fl_eqI [where e = "- 5" and n = 7625142226235760]) (simp_all add: round_even_eqI)

lemma fl_lines_25: "fl (2382856945698675 / 4503599627370496) = 2382856945698675 / 4503599627370496"
  by (rule fl_eqI [where e = "- 1" and n = 4765713891397350]) (simp_all add: round_even_eqI)

lemma fl_lines_26: "fl (5404319552844595 / 68094426365841904) = 1429714167419205 / 18014398509481984"
  by (rule fl_eqI [where e = "- 4" and n = 5718856669676820]) (simp_all add: round_even_eqI)

lemma fl_lines_27: "fl (7148570837096025 / 9007199254740992) = 7148570837096025 / 9007199254740992"
  by (rule fl_eqI [where e = "- 1" and n = 7148570837096025]) (simp_all add: round_even_eqI)

lemma fl_lines_28: "fl (3 / 2) = 3 / 2"
  by (rule fl_eqI [where e = 0 and n = 6755399441055744]) (simp_all add: round_even_eqI)

lemma fl_lines_29: "fl (1 / 2) = 1 / 2"
  by (rule fl_eqI [where e = "- 1" and n = 4503599627370496]) (simp_all add: round_even_eqI)

lemma fl_lines_30: "fl (7 / 2) = 7 / 2"
  by (rule fl_eqI [where e = 1 and n = 7881299347898368]) (simp_all add: round_even_eqI)

lemma fl_lines_31: "fl 5 = 5"
  by (rule fl_eqI [where e = 2 and n = 5629499534213120]) (simp_all add: round_even_eqI)

lemma fl_lines_32: "fl (11 / 2) = 11 / 2"
  by (rule fl_eqI [where e = 2 and n = 6192449487634432]) (simp_all add: round_even_eqI)

lemma fl_lines_33: "fl 6 = 6"
  by (rule fl_eqI [where e = 2 and n = 6755399441055744]) (simp_all add: round_even_eqI)

lemma fl_lines_34: "fl 7 = 7"
  by (rule fl_eqI [where e = 2 and n = 7881299347898368]) (simp_all add: round_even_eqI)

lemma fl_lines_35: "fl (15 / 2) = 15 / 2"
  by (rule fl_eqI [where e = 2 and n = 8444249301319680]) (simp_all add: round_even_eqI)

lemma fl_lines_36: "fl (37379876907175117 / 4503599627370496) = 2336242306698445 / 281474976710656"
  by (rule fl_eqI [where e = 3 and n = 4672484613396890]) (simp_all add: round_even_eqI)

lemma fl_lines_37: "fl (2476979795053773 / 281474976710656) = 2476979795053773 / 281474976710656"
  by (rule fl_eqI [where e = 3 and n = 4953959590107546]) (simp_all add: round_even_eqI)

lemma fl_lines_38: "fl (2758454771764429 / 281474976710656) = 2758454771764429 / 281474976710656"
  by (rule fl_eqI [where e = 3 and n = 5516909543528858]) (simp_all add: round_even_eqI)

lemma fl_lines_39: "fl (3180667236830413 / 281474976710656) = 3180667236830413 / 281474976710656"
  by (rule fl_eqI [where e = 3 and n = 6361334473660826]) (simp_all add: round_even_eqI)

lemma fl_lines_40: "fl (3321404725185741 / 281474976710656) = 3321404725185741 / 281474976710656"
  by (rule fl_eqI [where e = 3 and n = 6642809450371482]) (simp_all add: round_even_eqI)

lemma fl_lines_41: "fl (3462142213541069 / 281474976710656) = 3462142213541069 / 281474976710656"
  by (rule fl_eqI [where e = 3 and n = 6924284427082138]) (simp_all add: round_even_eqI)

lemma fl_lines_42: "fl (281474976710656 / 3462142213541069) = 366146311168333 / 4503599627370496"
  by (rule fl_eqI [where e = "- 4" and n = 5858340978693328]) (simp_all add: round_even_eqI)

lemma fl_lines_43: "fl (1830731555841665 / 2251799813685248) = 1830731555841665 / 2251799813685248"
  by (rule fl_eqI [where e = "- 1" and n = 7322926223366660]) (simp_all add: round_even_eqI)

lemma fl_lines_44: "fl (422212465065984 / 3462142213541069) = 1098438933504999 / 9007199254740992"
  by (rule fl_eqI [where e = "- 4" and n = 8787511468039992]) (simp_all add: round_even_eqI)

lemma fl_lines_45: "fl (5492194667524995 / 4503599627370496) = 5492194667524995 / 4503599627370496"
  by (rule fl_eqI [where e = 0 and n = 5492194667524995]) (simp_all add: round_even_eqI)

lemma fl_lines_46: "fl (140737488355328 / 3462142213541069) = 366146311168333 / 9007199254740992"
  by (rule fl_eqI [where e = "- 5" and n = 5858340978693328]) (simp_all add: round_even_eqI)

lemma fl_lines_47: "fl (1830731555841665 / 4503599627370496) = 1830731555841665 / 4503599627370496"
  by (rule fl_eqI [where e = "- 2" and n = 7322926223366660]) (simp_all add: round_even_eqI)

lemma fl_lines_48: "fl (3602879701896397 / 55394275416657104) = 2343336391477331 / 36028797018963968"
  by (rule fl_eqI [where e = "- 4" and n = 4686672782954662]) (simp_all add: round_even_eqI)

lemma fl_lines_49: "fl (11716681957386655 / 18014398509481984) = 366146311168333 / 562949953421312"
  by (rule fl_eqI [where e = "- 1" and n = 5858340978693328]) (simp_all add: round_even_tie)

lemma fl_lines_50: "fl (45035996273704959 / 4503599627370496) = 10"
  by (rule fl_eqI [where e = 3 and n = 5629499534213120]) (simp_all add: round_even_eqI)

lemma fl_lines_51: "fl (135107988821114877 / 9007199254740992) = 15"
  by (rule fl_eqI [where e = 3 and n = 8444249301319680]) (simp_all add: round_even_eqI)

lemma fl_lines_52: "fl (45035996273704959 / 9007199254740992) = 5"
  by (rule fl_eqI [where e = 2 and n = 5629499534213120]) (simp_all add: round_even_eqI)

lemma fl_lines_53: "fl (288230376151711713 / 36028797018963968) = 9007199254740991 / 1125899906842624"
  by (rule fl_eqI [where e = 2 and n = 9007199254740991]) (simp_all add: round_even_eqI)

lemma fl_lines_54: "fl 3 = 3"
  by (rule fl_eqI [where e = 1 and n = 6755399441055744]) (simp_all add: round_even_eqI)

lemma fl_lines_55: "fl 4 = 4"
  by (rule fl_eqI [where e = 2 and n = 4503599627370496]) (simp_all add: round_even_eqI)

lemma fl_lines_56: "fl (1 / 4) = 1 / 4"
  by (rule fl_eqI [where e = "- 2" and n = 4503599627370496]) (simp_all add: round_even_eqI)

lemma fl_lines_57: "fl 25 = 25"
  by (rule fl_eqI [where e = 4 and n = 7036874417766400]) (simp_all add: round_even_eqI)

lemma fl_lines_58: "fl (3 / 4) = 3 / 4"
  by (rule fl_eqI [where e = "- 1" and n = 6755399441055744]) (simp_all add: round_even_eqI)

lemma fl_lines_59: "fl 75 = 75"
  by (rule fl_eqI [where e = 6 and n = 5277655813324800]) (simp_all add: round_even_eqI)

lemmas fl_lines = fl_lines_1 fl_lines_2 fl_lines_3 fl_lines_4 fl_lines_5 fl_lines_6 fl_lines_7
  fl_lines_8 fl_lines_9 fl_lines_10 fl_lines_11 fl_lines_12 fl_lines_13 fl_lines_14 fl_lines_15
  fl_lines_16 fl_lines_17 fl_lines_18 fl_lines_19 fl_lines_20 fl_lines_21 fl_lines_22
  fl_lines_23 fl_lines_24 fl_lines_25 fl_lines_26 fl_lines_27 fl_lines_28 fl_lines_29
  fl_lines_30 fl_lines_31 fl_lines_32 fl_lines_33 fl_lines_34 fl_lines_35 fl_lines_36
  fl_lines_37 fl_lines_38 fl_lines_39 fl_lines_40 fl_lines_41 fl_lines_42 fl_lines_43
  fl_lines_44 fl_lines_45 fl_lines_46 fl_lines_47 fl_lines_48 fl_lines_49 fl_lines_50
  fl_lines_51 fl_lines_52 fl_lines_53 fl_lines_54 fl_lines_55 fl_lines_56 fl_lines_57
  fl_lines_58 fl_lines_59

subsection \<open>Roundings of one run of the circle generator\<close>

lemma fl_circle_1: "fl (5 / 2) = 5 / 2"
  by (rule fl_eqI [where e = 1 and n = 5629499534213120]) (simp_all add: round_even_eqI)

lemma fl_circle_2: "fl (45035996273704955 / 18014398509481984) = 5629499534213119 / 2251799813685248"
  by (rule fl_eqI [where e = 1 and n = 5629499534213119]) (simp_all add: round_even_eqI)

lemma fl_circle_3: "fl (5629499534213119 / 2251799813685248) = 5629499534213119 / 2251799813685248"
  by (rule fl_eqI [where e = 1 and n = 5629499534213119]) (simp_all add: round_even_eqI)

lemma fl_circle_4: "fl (884279719003555 / 140737488355328) = 884279719003555 / 140737488355328"
  by (rule fl_eqI [where e = 2 and n = 7074237752028440]) (simp_all add: round_even_eqI)

lemma fl_circle_5: "fl (4421398595017775 / 288230376151711744) = 4421398595017775 / 288230376151711744"
  by (rule fl_eqI [where e = "- 7" and n = 8842797190035550]) (simp_all add: round_even_eqI)

lemma fl_circle_6: "fl (24889285189362931928220148380699 / 649037107316853453566312041152512) = 5526531496738525 / 144115188075855872"
  by (rule fl_eqI [where e = "- 5" and n = 5526531496738525]) (simp_all add: round_even_eqI)

lemma fl_circle_7: "fl (50700058316317734007713170113583 / 20282409603651670423947251286016) = 2814418604630705 / 1125899906842624"
  by (rule fl_eqI [where e = 1 and n = 5628837209261410]) (simp_all add: round_even_eqI)

lemma fl_circle_8: "fl (5526531496738525 / 144115188075855872) = 5526531496738525 / 144115188075855872"
  by (rule fl_eqI [where e = "- 5" and n = 5526531496738525]) (simp_all add: round_even_eqI)

lemma fl_circle_9: "fl (2814418604630705 / 1125899906842624) = 2814418604630705 / 1125899906842624"
  by (rule fl_eqI [where e = 1 and n = 5628837209261410]) (simp_all add: round_even_eqI)

lemma fl_circle_10: "fl (30542550384442961362712219175625 / 20769187434139310514121985316880384) = 1695452133379125 / 1152921504606846976"
  by (rule fl_eqI [where e = "- 10" and n = 6781808533516500]) (simp_all add: round_even_eqI)

lemma fl_circle_11: "fl (7920952082091444587669428797025 / 1267650600228229401496703205376) = 1758804675698099 / 281474976710656"
  by (rule fl_eqI [where e = 2 and n = 7035218702792396]) (simp_all add: round_even_eqI)

lemma fl_circle_12: "fl (7205759403792792629 / 1152921504606846976) = 7036874417766399 / 1125899906842624"
  by (rule fl_eqI [where e = 2 and n = 7036874417766399]) (simp_all add: round_even_eqI)

lemma fl_circle_13: "fl (7036874417766399 / 1125899906842624) = 7036874417766399 / 1125899906842624"
  by (rule fl_eqI [where e = 2 and n = 7036874417766399]) (simp_all add: round_even_eqI)

lemmas fl_circle = fl_circle_1 fl_circle_2 fl_circle_3 fl_circle_4 fl_circle_5 fl_circle_6
  fl_circle_7 fl_circle_8 fl_circle_9 fl_circle_10 fl_circle_11 fl_circle_12 fl_circle_13

lemma sin_poly: "(\<Sum>m<9. sin_coeff m * (x :: real) ^ m) = x - x ^ 3 / 6 + x ^ 5 / 120 - x ^ 7 / 5040"
  by (simp add: lessThan_nat_numeral sin_coeff_def fact_numeral)

lemma cos_poly: "(\<Sum>m<8. cos_coeff m * (x :: real) ^ m) = 1 - x ^ 2 / 2 + x ^ 4 / 24 - x ^ 6 / 720"
  by (simp add: lessThan_nat_numeral cos_coeff_def fact_numeral)

lemma sin_bound9:
  "\<bar>sin x - ((x :: real) - x ^ 3 / 6 + x ^ 5 / 120 - x ^ 7 / 5040)\<bar> \<le> \<bar>x\<bar> ^ 9 / 362880"
proof -
  have "inverse (fact 9) * \<bar>x\<bar> ^ 9 = \<bar>x\<bar> ^ 9 / 362880"
    by (simp add: fact_numeral)
  with Maclaurin_sin_bound [of x 9] show ?thesis
    unfolding sin_poly by simp
qed

lemma cos_bound8:
  assumes "0 < (x :: real)"
  shows "\<bar>cos x - (1 - x ^ 2 / 2 + x ^ 4 / 24 - x ^ 6 / 720)\<bar> \<le> x ^ 8 / 40320"
proof -
  obtain t where
    t: "cos x = (\<Sum>m<8. cos_coeff m * x ^ m) + cos (t + 1 / 2 * real 8 * pi) / fact 8 * x ^ 8"
    using Maclaurin_cos_expansion2 [OF assms, of 8] by auto
  have "\<bar>cos (t + 1 / 2 * real 8 * pi) / fact 8 * x ^ 8\<bar> =
      \<bar>cos (t + 1 / 2 * real 8 * pi)\<bar> * (x ^ 8 / 40320)"
    by (simp add: abs_mult fact_numeral)
  also have "\<dots> \<le> 1 * (x ^ 8 / 40320)"
    by (intro mult_right_mono) simp_all
  finally show ?thesis
    unfolding t cos_poly by simp
qed

lemma sin_at_angle: "fl (sin (4421398595017775 / 288230376151711744)) = 4421225197390821 / 288230376151711744"
proof -
  let ?a = "4421398595017775 / 288230376151711744 :: real"
  have "3067841256997620089198188841 / 200000000000000000000000000000 \<le> ?a - ?a ^ 3 / 6 + ?a ^ 5 / 120 - ?a ^ 7 / 5040 - \<bar>?a\<bar> ^ 9 / 362880"
    and "?a - ?a ^ 3 / 6 + ?a ^ 5 / 120 - ?a ^ 7 / 5040 + \<bar>?a\<bar> ^ 9 / 362880 \<le> 383480157124702511156253773 / 25000000000000000000000000000"
    by (simp_all add: power_divide)
  with sin_bound9 [of ?a] have b: "3067841256997620089198188841 / 200000000000000000000000000000 \<le> sin ?a" "sin ?a \<le> 383480157124702511156253773 / 25000000000000000000000000000"
    by linarith+
  show ?thesis
  proof (rule fl_eqI [where e = "- 7" and n = 8842450394781642])
    show "2 powi (- 7) \<le> \<bar>sin ?a\<bar>" "\<bar>sin ?a\<bar> < 2 powi ((- 7) + 1)"
      using b by simp_all
    show "round_even (sin ?a / 2 powi ((- 7) - 52)) = 8842450394781642"
      using b by (intro round_even_eqI) simp_all
    show "4421225197390821 / 288230376151711744 = real_of_int 8842450394781642 * 2 powi ((- 7) - 52)"
      by simp
  qed
qed

lemma cos_at_angle: "fl (cos (4421398595017775 / 288230376151711744)) = 9006139534818257 / 9007199254740992"
proof -
  let ?a = "4421398595017775 / 288230376151711744 :: real"
  have "999882347454212525490143386799 / 1000000000000000000000000000000 \<le> 1 - ?a ^ 2 / 2 + ?a ^ 4 / 24 - ?a ^ 6 / 720 - ?a ^ 8 / 40320"
    and "1 - ?a ^ 2 / 2 + ?a ^ 4 / 24 - ?a ^ 6 / 720 + ?a ^ 8 / 40320 \<le> 124985293431776565705277780281 / 125000000000000000000000000000"
    by (simp_all add: power_divide)
  moreover have "0 < ?a"
    by simp
  ultimately have b: "999882347454212525490143386799 / 1000000000000000000000000000000 \<le> cos ?a" "cos ?a \<le> 124985293431776565705277780281 / 125000000000000000000000000000"
    using cos_bound8 [of ?a] by linarith+
  show ?thesis
  proof (rule fl_eqI [where e = "- 1" and n = 9006139534818257])
    show "2 powi (- 1) \<le> \<bar>cos ?a\<bar>" "\<bar>cos ?a\<bar> < 2 powi ((- 1) + 1)"
      using b by simp_all
    show "round_even (cos ?a / 2 powi ((- 1) - 52)) = 9006139534818257"
      using b by (intro round_even_eqI) simp_all
    show "9006139534818257 / 9007199254740992 = real_of_int 9006139534818257 * 2 powi ((- 1) - 52)"
      by simp
  qed
qed

lemma sqrt_at_sum: "fl (sqrt (7036874417766399 / 1125899906842624)) = 5 / 2"
proof -
  let ?z = "7036874417766399 / 1125899906842624 :: real"
  have lo: "(11258999068426239 / 4503599627370496) < sqrt ?z"
    by (rule real_less_rsqrt) (simp add: power2_eq_square)
  have hi: "sqrt ?z < (11258999068426241 / 4503599627370496)"
    by (rule real_less_lsqrt) (simp_all add: power2_eq_square)
  show ?thesis
  proof (rule fl_eqI [where e = 1 and n = 5629499534213120])
    show "2 powi 1 \<le> \<bar>sqrt ?z\<bar>" "\<bar>sqrt ?z\<bar> < 2 powi (1 + 1)"
      using lo hi by simp_all
    show "round_even (sqrt ?z / 2 powi (1 - 52)) = 5629499534213120"
      using lo hi by (intro round_even_eqI) simp_all
    show "(5 / 2 :: real) = real_of_int 5629499534213120 * 2 powi (1 - 52)"
      by simp
  qed
qed

subsection \<open>Roundings of short binary fractions\<close>

lemma fl_plain_1: "fl (5 / 2) = 5 / 2"
  by (rule fl_eqI [where e = 1 and n = 5629499534213120]) (simp_all add: round_even_eqI)

lemma fl_plain_2: "fl (5 / 4) = 5 / 4"
  by (rule fl_eqI [where e = 0 and n = 5629499534213120]) (simp_all add: round_even_eqI)

lemma fl_plain_3: "fl 1 = 1"
  by (rule fl_eqI [where e = 0 and n = 4503599627370496]) (simp_all add: round_even_eqI)

lemma fl_plain_4: "fl (25 / 16) = 25 / 16"
  by (rule fl_eqI [where e = 0 and n = 7036874417766400]) (simp_all add: round_even_eqI)

lemma fl_plain_5: "fl (7 / 10) = 3152519739159347 / 4503599627370496"
  by (rule fl_eqI [where e = "- 1" and n = 6305039478318694]) (simp_all add: round_even_eqI)

lemma fl_plain_6: "fl (15762598695796735 / 4503599627370496) = 7 / 2"
  by (rule fl_eqI [where e = 1 and n = 7881299347898368]) (simp_all add: round_even_tie)

lemma fl_plain_7: "fl (3 / 2) = 3 / 2"
  by (rule fl_eqI [where e = 0 and n = 6755399441055744]) (simp_all add: round_even_eqI)

lemma fl_plain_8: "fl (3 / 4) = 3 / 4"
  by (rule fl_eqI [where e = "- 1" and n = 6755399441055744]) (simp_all add: round_even_eqI)

lemma fl_plain_9: "fl (17 / 4) = 17 / 4"
  by (rule fl_eqI [where e = 2 and n = 4785074604081152]) (simp_all add: round_even_eqI)

lemma fl_plain_10: "fl (289 / 16) = 289 / 16"
  by (rule fl_eqI [where e = 4 and n = 5084141766836224]) (simp_all add: round_even_eqI)

lemmas fl_plain = fl_plain_1 fl_plain_2 fl_plain_3 fl_plain_4 fl_plain_5 fl_plain_6 fl_plain_7
  fl_plain_8 fl_plain_9 fl_plain_10

lemma sqrt_plain: "sqrt (25 / 16) = 5 / 4" "sqrt (289 / 16) = 17 / 4"
  by (rule real_sqrt_unique; simp add: power2_eq_square)+

section \<open>Facts about the random source and the loops\<close>

lemma Rep_draw_bounds: "0 \<le> Rep_draw d" "Rep_draw d < 1"
  using Rep_draw [of d] by simp_all

lemma Rep_const_source: "0 \<le> r \<Longrightarrow> r < 1 \<Longrightarrow> Rep_draw (const_source r k) = r"
  by (simp add: const_source_def Abs_draw_inverse)

lemma for_loop_fold: "for_loop bound body i s = fold body [i..<nat \<lceil>bound\<rceil>] s"
proof (induction bound body i s rule: for_loop.induct)
  case (1 bound body i s)
  show ?case
  proof (cases "real i < bound")
    case True
    then have "i < nat \<lceil>bound\<rceil>"
      by linarith
    then have "[i..<nat \<lceil>bound\<rceil>] = i # [Suc i..<nat \<lceil>bound\<rceil>]"
      by (rule upt_conv_Cons)
    with True 1 show ?thesis
      by (simp add: for_loop.simps [of bound body i s])
  next
    case False
    then have "nat \<lceil>bound\<rceil> \<le> i"
      by linarith
    with False show ?thesis
      by (simp add: for_loop.simps [of bound body i s])
  qed
qed

section \<open>shuffle permutes the array\<close>

lemma shuffle_index_less:
  assumes "0 < counter"
  shows "nat \<lfloor>Rep_draw d * real counter\<rfloor> < counter"
proof -
  have "Rep_draw d * real counter < 1 * real counter"
    using assms Rep_draw_bounds(2) [of d] by (intro mult_strict_right_mono) simp_all
  then have "\<lfloor>Rep_draw d * real counter\<rfloor> < int counter"
    by (simp add: floor_less_iff)
  then show ?thesis
    using assms by linarith
qed

lemma shuffle_loop_0: "shuffle_loop rnd k 0 array = (array, k)"
  by (simp add: shuffle_loop.simps [of rnd k 0 array])

lemma shuffle_loop_perm:
  "counter \<le> length array \<Longrightarrow>
     length (fst (shuffle_loop rnd k counter array)) = length array \<and>
     mset (fst (shuffle_loop rnd k counter array)) = mset array"
proof (induction rnd k counter array rule: shuffle_loop.induct)
  case (1 rnd k counter array)
  show ?case
  proof (cases "counter > 0")
    case False
    then show ?thesis
      by (simp add: shuffle_loop_0)
  next
    case True
    define index where "index = nat \<lfloor>Rep_draw (rnd k) * real counter\<rfloor>"
    define array' where
      "array' = array[counter - 1 := array ! index, index := array ! (counter - 1)]"
    have idx: "index < counter"
      unfolding index_def using True by (rule shuffle_index_less)
    have unfold: "shuffle_loop rnd k counter array = shuffle_loop rnd (Suc k) (counter - 1) array'"
      using True
      by (simp add: shuffle_loop.simps [of rnd k counter array] Math_random_def Let_def
          index_def array'_def)
    have len: "length array' = length array"
      by (simp add: array'_def)
    have "mset array' = mset array"
      unfolding array'_def using idx True "1.prems" by (intro mset_swap) simp_all
    moreover have "length (fst (shuffle_loop rnd (Suc k) (counter - 1) array')) = length array' \<and>
        mset (fst (shuffle_loop rnd (Suc k) (counter - 1) array')) = mset array'"
    proof (rule "1.IH" [OF True])
      show "(Rep_draw (rnd k), Suc k) = Math_random rnd k"
        by (simp add: Math_random_def)
      show "index = nat \<lfloor>Rep_draw (rnd k) * real counter\<rfloor>"
        by (rule index_def)
      show "counter - 1 \<le> length array'"
        using "1.prems" len by simp
    qed (simp_all add: array'_def)
    ultimately show ?thesis
      using unfold len by simp
  qed
qed

lemma shuffle_loop_short:
  "counter \<le> 1 \<Longrightarrow> fst (shuffle_loop rnd k counter array) = array"
proof (cases "counter = 0")
  case True
  then show ?thesis
    by (simp add: shuffle_loop_0)
next
  case False
  assume "counter \<le> 1"
  with False have c: "counter = 1"
    by simp
  have "nat \<lfloor>Rep_draw (rnd k) * real (1::nat)\<rfloor> < 1"
    by (rule shuffle_index_less) simp
  then have "nat \<lfloor>Rep_draw (rnd k)\<rfloor> = 0"
    by simp
  then show ?thesis
    using c
    by (simp add: shuffle_loop.simps [of rnd k "Suc 0" array] shuffle_loop_0
        Math_random_def Let_def)
qed

section \<open>Closed forms of the generators\<close>

lemma randUniform_eq: "randUniform rnd k a b = (draw_at rnd k a b, Suc k)"
  by (simp add: randUniform_def draw_at_def Math_random_def)

lemma draw_at_eq: "draw_at rnd k a b = Rep_draw (rnd k) * (b - a) + a"
  by (simp add: randUniform_def draw_at_def Math_random_def)

lemma fold_push:
  assumes "\<And>i pts k. body i (pts, k) = (pts @ [pushed (body i) k], k + c)"
  shows "fold body [0..<m] (pts, k) =
    (pts @ map (\<lambda>i. pushed (body i) (k + c * i)) [0..<m], k + c * m)"
  by (induction m) (simp_all add: assms add.commute)

lemma for_loop_push:
  assumes "\<And>i pts k. body i (pts, k) = (pts @ [pushed (body i) k], k + c)"
  shows "for_loop bound body 0 (pts, k) =
    (pts @ map (\<lambda>i. pushed (body i) (k + c * i)) [0..<nat \<lceil>bound\<rceil>], k + c * nat \<lceil>bound\<rceil>)"
  by (simp add: for_loop_fold fold_push [of body c, OF assms])

lemma regressPlane_body_push:
  "regressPlane_body rnd noise i (pts, k) = (pts @ [pushed (regressPlane_body rnd noise i) k], k + 4)"
  by (simp add: regressPlane_body_def pushed_def randUniform_eq Let_def)

lemma regressPlane_pushed:
  "pushed (regressPlane_body rnd noise i) k =
     \<lparr>ex_x = Num (draw_at rnd k (- 6) 6), ex_y = Num (draw_at rnd (k + 1) (- 6) 6),
      label = Num (regressPlane_getLabel
        (draw_at rnd k (- 6) 6 + draw_at rnd (k + 2) (- 6) 6 * noise)
        (draw_at rnd (k + 1) (- 6) 6 + draw_at rnd (k + 3) (- 6) 6 * noise))\<rparr>"
  by (simp add: regressPlane_body_def pushed_def randUniform_eq Let_def numeral_eq_Suc)

lemma regressPlane_closed:
  "regressPlane rnd k numSamples noise =
     (map (\<lambda>i. pushed (regressPlane_body rnd noise i) (k + 4 * i)) [0..<nat \<lceil>numSamples\<rceil>],
      k + 4 * nat \<lceil>numSamples\<rceil>)"
  unfolding regressPlane_def
  using for_loop_push [of "regressPlane_body rnd noise" 4 numSamples "[]" k, OF regressPlane_body_push]
  by simp

lemma regressGaussian_body_push:
  "regressGaussian_body rnd noise i (pts, k) =
     (pts @ [pushed (regressGaussian_body rnd noise i) k], k + 4)"
  by (simp add: regressGaussian_body_def pushed_def randUniform_eq Let_def)

lemma regressGaussian_pushed:
  "pushed (regressGaussian_body rnd noise i) k =
     \<lparr>ex_x = Num (draw_at rnd k (- 6) 6), ex_y = Num (draw_at rnd (k + 1) (- 6) 6),
      label = Num (regressGaussian_getLabel
        (draw_at rnd k (- 6) 6 + draw_at rnd (k + 2) (- 6) 6 * noise)
        (draw_at rnd (k + 1) (- 6) 6 + draw_at rnd (k + 3) (- 6) 6 * noise))\<rparr>"
  by (simp add: regressGaussian_body_def pushed_def randUniform_eq Let_def numeral_eq_Suc)

lemma regressGaussian_closed:
  "regressGaussian rnd k numSamples noise =
     (map (\<lambda>i. pushed (regressGaussian_body rnd noise i) (k + 4 * i)) [0..<nat \<lceil>numSamples\<rceil>],
      k + 4 * nat \<lceil>numSamples\<rceil>)"
  unfolding regressGaussian_def
  using for_loop_push [of "regressGaussian_body rnd noise" 4 numSamples "[]" k,
      OF regressGaussian_body_push]
  by simp

lemma xor_body_push:
  "xor_body rnd noise i (pts, k) = (pts @ [pushed (xor_body rnd noise i) k], k + 4)"
  by (simp add: xor_body_def pushed_def randUniform_eq Let_def)

lemma xor_pushed:
  "pushed (xor_body rnd noise i) k =
     \<lparr>ex_x = Num (pad (draw_at rnd k (- 5) 5)), ex_y = Num (pad (draw_at rnd (k + 1) (- 5) 5)),
      label = Num (getXORLabel
        \<lparr>px = pad (draw_at rnd k (- 5) 5) + draw_at rnd (k + 2) (- 5) 5 * noise,
         py = pad (draw_at rnd (k + 1) (- 5) 5) + draw_at rnd (k + 3) (- 5) 5 * noise\<rparr>)\<rparr>"
  by (simp add: xor_body_def pushed_def randUniform_eq Let_def numeral_eq_Suc pad_def)

lemma classifyXORData_closed:
  "classifyXORData rnd k numSamples noise =
     (map (\<lambda>i. pushed (xor_body rnd noise i) (k + 4 * i)) [0..<nat \<lceil>numSamples\<rceil>],
      k + 4 * nat \<lceil>numSamples\<rceil>)"
  unfolding classifyXORData_def
  using for_loop_push [of "xor_body rnd noise" 4 numSamples "[]" k, OF xor_body_push]
  by simp

lemma circle_body_push:
  "circle_body rnd noise radius lo hi i (pts, k) =
     (pts @ [pushed (circle_body rnd noise radius lo hi i) k], k + 4)"
  by (simp add: circle_body_def pushed_def randUniform_eq Let_def)

lemma circle_pushed:
  "pushed (circle_body rnd noise radius lo hi i) k =
     (let r = draw_at rnd k lo hi; angle = draw_at rnd (k + 1) 0 (2 * pi);
          x = r * sin angle; y = r * cos angle
      in \<lparr>ex_x = Num x, ex_y = Num y,
          label = Num (getCircleLabel radius
            \<lparr>px = x + draw_at rnd (k + 2) (- radius) radius * noise,
             py = y + draw_at rnd (k + 3) (- radius) radius * noise\<rparr> \<lparr>px = 0, py = 0\<rparr>)\<rparr>)"
  by (simp add: circle_body_def pushed_def randUniform_eq Let_def numeral_eq_Suc)

lemma classifyCircleData_closed:
  "classifyCircleData rnd k numSamples noise =
     (map (\<lambda>i. pushed (circle_body rnd noise 5 0 (5 * 0.5) i) (k + 4 * i))
        [0..<nat \<lceil>numSamples / 2\<rceil>] @
      map (\<lambda>i. pushed (circle_body rnd noise 5 (5 * 0.7) 5 i)
            (k + 4 * nat \<lceil>numSamples / 2\<rceil> + 4 * i))
        [0..<nat \<lceil>numSamples / 2\<rceil>],
      k + 4 * nat \<lceil>numSamples / 2\<rceil> + 4 * nat \<lceil>numSamples / 2\<rceil>)"
  unfolding classifyCircleData_def Let_def
  by (simp only: for_loop_push [of "circle_body rnd noise 5 lo hi" 4 for lo hi, OF circle_body_push]
      append_Nil)

lemma genSpiral_body_push:
  "genSpiral_body rnd noise n deltaT lab i (pts, k) =
     (pts @ [pushed (genSpiral_body rnd noise n deltaT lab i) k], k + 2)"
  by (simp add: genSpiral_body_def pushed_def randUniform_eq Let_def)

lemma genSpiral_pushed_label:
  "label (pushed (genSpiral_body rnd noise n deltaT lab i) k) = Num lab"
  by (simp add: genSpiral_body_def pushed_def randUniform_eq Let_def)

lemma classifySpiralData_closed:
  "classifySpiralData rnd k numSamples noise =
     (map (\<lambda>i. pushed (genSpiral_body rnd noise (numSamples / 2) 0 1 i) (k + 2 * i))
        [0..<nat \<lceil>numSamples / 2\<rceil>] @
      map (\<lambda>i. pushed (genSpiral_body rnd noise (numSamples / 2) pi (- 1) i)
            (k + 2 * nat \<lceil>numSamples / 2\<rceil> + 2 * i))
        [0..<nat \<lceil>numSamples / 2\<rceil>],
      k + 2 * nat \<lceil>numSamples / 2\<rceil> + 2 * nat \<lceil>numSamples / 2\<rceil>)"
  unfolding classifySpiralData_def Let_def
  by (simp only: for_loop_push [of "genSpiral_body rnd noise n d l" 2 for n d l,
        OF genSpiral_body_push] append_Nil)

lemma lines_body_push:
  "lines_body rnd noise randRadius prop j (pts, k) =
     (pts @ [pushed (lines_body rnd noise randRadius prop j) k], k + 3)"
  by (simp add: lines_body_def pushed_def randUniform_eq randOnLine_def Math_random_def Let_def)

lemma lines_pushed_label:
  "label (pushed (lines_body rnd noise randRadius prop j) k) = Num (prop_label prop)"
  by (simp add: lines_body_def pushed_def randUniform_eq randOnLine_def Math_random_def Let_def)

lemma lines_for_loop:
  "for_loop (real_of_int z) (lines_body rnd noise rr prop) 0 (pts, k) = (pts', k') \<Longrightarrow>
     map label pts' = map label pts @ replicate (nat z) (Num (prop_label prop))"
  by (auto simp add: for_loop_push [of "lines_body rnd noise rr prop" 3, OF lines_body_push]
      lines_pushed_label map_replicate_const comp_def)

lemma lines_fold:
  "fold (\<lambda>prop st. let num = real_of_int \<lfloor>q prop\<rfloor>
                     in for_loop num (lines_body rnd noise rr prop) 0 st) props (pts, k) = (pts', k') \<Longrightarrow>
     map label pts' =
       map label pts @ concat (map (\<lambda>p. replicate (nat \<lfloor>q p\<rfloor>) (Num (prop_label p))) props)"
proof (induction props arbitrary: pts k)
  case Nil
  then show ?case by simp
next
  case (Cons p props)
  obtain pts1 k1 where step:
    "for_loop (real_of_int \<lfloor>q p\<rfloor>) (lines_body rnd noise rr p) 0 (pts, k) = (pts1, k1)"
    by (cases "for_loop (real_of_int \<lfloor>q p\<rfloor>) (lines_body rnd noise rr p) 0 (pts, k)")
  from Cons.prems step have
    "fold (\<lambda>prop st. let num = real_of_int \<lfloor>q prop\<rfloor>
                      in for_loop num (lines_body rnd noise rr prop) 0 st) props (pts1, k1) = (pts', k')"
    by simp
  from Cons.IH [OF this] lines_for_loop [OF step] show ?case
    by simp
qed

lemma makeClassifyDataWithLines_labels:
  assumes "sumOfRatio props \<noteq> 0"
  shows "\<exists>pts k'. makeClassifyDataWithLines rnd k numSamples noise props rr = Some (pts, k') \<and>
     map label pts = concat (map (\<lambda>p. replicate
         (nat (quota props numSamples p)) (Num (prop_label p))) props)"
proof -
  let ?q = "\<lambda>p. fl (fl (ratio p / sumOfRatio props) * numSamples)"
  obtain pts k' where f:
    "fold (\<lambda>prop st. let num = real_of_int \<lfloor>?q prop\<rfloor>
                      in for_loop num (lines_body rnd noise rr prop) 0 st) props ([], k) = (pts, k')"
    by (cases "fold (\<lambda>prop st. let num = real_of_int \<lfloor>?q prop\<rfloor>
                      in for_loop num (lines_body rnd noise rr prop) 0 st) props ([], k)")
  have "makeClassifyDataWithLines rnd k numSamples noise props rr = Some (pts, k')"
    using assms f by (simp add: makeClassifyDataWithLines_def)
  with lines_fold [OF f] show ?thesis
    by (simp add: quota_def)
qed

lemma normalRandom_loop_unfold:
  "normalRandom_loop rnd k =
     (if accepted rnd k
      then Some (2 * Rep_draw (rnd k) - 1, 2 * Rep_draw (rnd (Suc k)) - 1,
             (2 * Rep_draw (rnd k) - 1) * (2 * Rep_draw (rnd k) - 1) +
             (2 * Rep_draw (rnd (Suc k)) - 1) * (2 * Rep_draw (rnd (Suc k)) - 1), Suc (Suc k))
      else normalRandom_loop rnd (Suc (Suc k)))"
  by (subst normalRandom_loop.simps) (simp add: Math_random_def accepted_def Let_def not_le)

lemma normalRandom_loop_returns:
  "accepted rnd (k + 2 * j) \<Longrightarrow> \<exists>r. normalRandom_loop rnd k = Some r"
proof (induction j arbitrary: k)
  case 0
  then show ?case
    by (subst normalRandom_loop_unfold) simp
next
  case (Suc j)
  show ?case
  proof (cases "accepted rnd k")
    case True
    then show ?thesis
      by (subst normalRandom_loop_unfold) simp
  next
    case False
    from Suc.prems have "accepted rnd (Suc (Suc k) + 2 * j)"
      by simp
    from Suc.IH [OF this] False show ?thesis
      by (subst normalRandom_loop_unfold) simp
  qed
qed

lemma normalRandom_returns:
  assumes "eventually_accepts rnd"
  shows "\<exists>v k'. normalRandom rnd k mean variance = Some (v, k')"
proof -
  from assms obtain j where "accepted rnd (k + 2 * j)"
    unfolding eventually_accepts_def by blast
  then obtain r where "normalRandom_loop rnd k = Some r"
    using normalRandom_loop_returns by blast
  then show ?thesis
    by (cases r) (simp add: normalRandom_def)
qed

lemma genGauss_body_None: "genGauss_body rnd variance cx cy lab i None = None"
  by (simp add: genGauss_body_def)

lemma genGauss_fold_None: "fold (genGauss_body rnd variance cx cy lab) xs None = None"
  by (induction xs) (simp_all add: genGauss_body_None)

lemma genGauss_body_Some:
  "genGauss_body rnd variance cx cy lab i st = Some (pts', k') \<Longrightarrow>
     \<exists>pts k e. st = Some (pts, k) \<and> pts' = pts @ [e] \<and> label e = Num lab"
  by (auto simp add: genGauss_body_def split: option.splits)

lemma genGauss_body_returns:
  assumes "eventually_accepts rnd"
  shows "\<exists>e k'. genGauss_body rnd variance cx cy lab i (Some (pts, k)) = Some (pts @ [e], k')"
proof -
  obtain x k1 where 1: "normalRandom rnd k cx variance = Some (x, k1)"
    using normalRandom_returns [OF assms] by blast
  obtain y k2 where 2: "normalRandom rnd k1 cy variance = Some (y, k2)"
    using normalRandom_returns [OF assms] by blast
  show ?thesis
    by (simp add: genGauss_body_def 1 2)
qed

lemma genGauss_fold_Some:
  "fold (genGauss_body rnd variance cx cy lab) [0..<m] st = Some (pts', k') \<Longrightarrow>
     \<exists>pts k new. st = Some (pts, k) \<and> pts' = pts @ new \<and> length new = m \<and>
       (\<forall>e \<in> set new. label e = Num lab)"
proof (induction m arbitrary: pts' k')
  case 0
  then show ?case by simp
next
  case (Suc m)
  from Suc.prems have
    "genGauss_body rnd variance cx cy lab m
       (fold (genGauss_body rnd variance cx cy lab) [0..<m] st) = Some (pts', k')"
    by simp
  from genGauss_body_Some [OF this] obtain pts1 k1 e where
    mid: "fold (genGauss_body rnd variance cx cy lab) [0..<m] st = Some (pts1, k1)"
    and e: "pts' = pts1 @ [e]" "label e = Num lab"
    by blast
  from Suc.IH [OF mid] obtain pts k new where
    "st = Some (pts, k)" "pts1 = pts @ new" "length new = m" "\<forall>e \<in> set new. label e = Num lab"
    by blast
  with e have "st = Some (pts, k) \<and> pts' = pts @ (new @ [e]) \<and> length (new @ [e]) = Suc m \<and>
      (\<forall>e \<in> set (new @ [e]). label e = Num lab)"
    by simp
  then show ?case
    by blast
qed

lemma genGauss_fold_returns:
  assumes "eventually_accepts rnd"
  shows "\<exists>r. fold (genGauss_body rnd variance cx cy lab) [0..<m] (Some (pts, k)) = Some r"
proof (induction m)
  case 0
  show ?case by simp
next
  case (Suc m)
  then obtain pts1 k1 where
    "fold (genGauss_body rnd variance cx cy lab) [0..<m] (Some (pts, k)) = Some (pts1, k1)"
    by (metis surj_pair)
  with genGauss_body_returns [OF assms, of variance cx cy lab m pts1 k1] show ?case
    by auto
qed

lemma classifyTwoGaussData_Some:
  assumes "classifyTwoGaussData rnd k numSamples noise = Some (pts, k')"
  shows "\<exists>pos neg. pts = pos @ neg \<and> length pos = nat \<lceil>numSamples / 2\<rceil> \<and>
     length neg = nat \<lceil>numSamples / 2\<rceil> \<and>
     (\<forall>e \<in> set pos. label e = Num 1) \<and> (\<forall>e \<in> set neg. label e = Num (- 1))"
proof -
  let ?v = "scale_linear 0 0.5 0.5 4 noise"
  let ?m = "nat \<lceil>numSamples / 2\<rceil>"
  let ?st = "fold (genGauss_body rnd ?v 2 2 1) [0..<?m] (Some ([], k))"
  from assms have 2: "fold (genGauss_body rnd ?v (- 2) (- 2) (- 1)) [0..<?m] ?st = Some (pts, k')"
    by (simp add: classifyTwoGaussData_def for_loop_fold Let_def)
  from genGauss_fold_Some [OF 2] obtain pos k1 neg where
    st: "?st = Some (pos, k1)" and neg: "pts = pos @ neg" "length neg = ?m"
      "\<forall>e \<in> set neg. label e = Num (- 1)"
    by blast
  from genGauss_fold_Some [OF st] have "length pos = ?m" "\<forall>e \<in> set pos. label e = Num 1"
    by auto
  with neg show ?thesis
    by blast
qed

lemma classifyTwoGaussData_returns:
  assumes "eventually_accepts rnd"
  shows "\<exists>r. classifyTwoGaussData rnd k numSamples noise = Some r"
proof -
  let ?v = "scale_linear 0 0.5 0.5 4 noise"
  let ?m = "nat \<lceil>numSamples / 2\<rceil>"
  obtain pos k1 where 1: "fold (genGauss_body rnd ?v 2 2 1) [0..<?m] (Some ([], k)) = Some (pos, k1)"
    using genGauss_fold_returns [OF assms, of ?v 2 2 1 ?m "[]" k] by (metis surj_pair)
  obtain r where "fold (genGauss_body rnd ?v (- 2) (- 2) (- 1)) [0..<?m] (Some (pos, k1)) = Some r"
    using genGauss_fold_returns [OF assms] by blast
  with 1 show ?thesis
    by (simp add: classifyTwoGaussData_def for_loop_fold Let_def)
qed

lemma ceiling_half: "nat \<lceil>real n / 2\<rceil> = (n + 1) div 2"
  by linarith

lemma classifySpiralData_length:
  "length (fst (classifySpiralData rnd k numSamples noise)) = 2 * nat \<lceil>numSamples / 2\<rceil>"
  by (simp add: classifySpiralData_closed)

lemma classifyCircleData_length:
  "length (fst (classifyCircleData rnd k numSamples noise)) = 2 * nat \<lceil>numSamples / 2\<rceil>"
  by (simp add: classifyCircleData_closed)

lemma classifyTwoGaussData_length:
  "classifyTwoGaussData rnd k numSamples noise = None \<or>
   length (emitted (classifyTwoGaussData rnd k numSamples noise)) = 2 * nat \<lceil>numSamples / 2\<rceil>"
proof (cases "classifyTwoGaussData rnd k numSamples noise")
  case None
  then show ?thesis by simp
next
  case (Some r)
  obtain pts k' where "r = (pts, k')"
    by (cases r)
  with Some classifyTwoGaussData_Some [of rnd k numSamples noise pts k'] show ?thesis
    by (auto simp add: emitted_def)
qed

lemma eventually_accepts_const:
  "0 \<le> r \<Longrightarrow> r < 1 \<Longrightarrow> (2 * r - 1) * (2 * r - 1) + (2 * r - 1) * (2 * r - 1) \<le> 1 \<Longrightarrow>
     eventually_accepts (const_source r)"
  by (simp add: eventually_accepts_def accepted_def Rep_const_source)

lemma lines_fold_zero:
  "\<forall>p \<in> set ps. nat \<lfloor>q p\<rfloor> = 0 \<Longrightarrow>
     fold (\<lambda>prop st. let num = real_of_int \<lfloor>q prop\<rfloor>
                       in for_loop num (lines_body rnd noise rr prop) 0 st) ps st = st"
  by (induction ps arbitrary: st) (simp_all add: for_loop_fold)

lemma lines_nonpositive:
  assumes "0 < sumOfRatio props" and "\<forall>p \<in> set props. 0 \<le> ratio p"
    and "numSamples \<le> 0"
  shows "makeClassifyDataWithLines rnd k numSamples noise props rr = Some ([], k)"
proof -
  let ?t = "sumOfRatio props"
  let ?q = "\<lambda>p. fl (fl (ratio p / ?t) * numSamples)"
  have q: "nat \<lfloor>?q p\<rfloor> = 0" if "p \<in> set props" for p
  proof -
    have "0 \<le> ratio p / ?t"
      using assms(1,2) that by simp
    then have "0 \<le> fl (ratio p / ?t)"
      by (rule fl_nonneg)
    then have "fl (ratio p / ?t) * numSamples \<le> 0"
      using assms(3) by (rule mult_nonneg_nonpos)
    then have "?q p \<le> 0"
      by (rule fl_nonpos)
    then have "\<lfloor>?q p\<rfloor> \<le> 0"
      by (simp add: floor_le_iff)
    then show ?thesis
      by simp
  qed
  have "fold (\<lambda>prop st. let num = real_of_int \<lfloor>?q prop\<rfloor>
                        in for_loop num (lines_body rnd noise rr prop) 0 st) props ([], k) = ([], k)"
    by (rule lines_fold_zero [where q = ?q]) (use q in blast)
  with assms(1) show ?thesis
    by (simp add: makeClassifyDataWithLines_def)
qed

lemma oxtu_props_ok:
  "0 < sumOfRatio oxtu_props" "\<forall>p \<in> set oxtu_props. 0 \<le> ratio p"
  "\<forall>p \<in> set oxtu_props. prop_label p = 1 \<or> prop_label p = - 1"
  by (simp_all add: oxtu_props_def mkProp_def sumOfRatio_def fl_lines)

lemma java_props_ok:
  "0 < sumOfRatio java_props" "\<forall>p \<in> set java_props. 0 \<le> ratio p"
  "\<forall>p \<in> set java_props. prop_label p = 1 \<or> prop_label p = - 1"
  by (simp_all add: java_props_def mkProp_def sumOfRatio_def fl_lines)

lemma classifyTwoGaussData_labels:
  "\<forall>e \<in> set (emitted (classifyTwoGaussData rnd k numSamples noise)). class_label (label e)"
proof (cases "classifyTwoGaussData rnd k numSamples noise")
  case None
  then show ?thesis by (simp add: emitted_def)
next
  case (Some r)
  obtain pts k' where "r = (pts, k')"
    by (cases r)
  with Some classifyTwoGaussData_Some [of rnd k numSamples noise pts k'] show ?thesis
    by (auto simp add: emitted_def class_label_def)
qed

lemma classifySpiralData_labels:
  "map label (fst (classifySpiralData rnd k numSamples noise)) =
     replicate (nat \<lceil>numSamples / 2\<rceil>) (Num 1) @ replicate (nat \<lceil>numSamples / 2\<rceil>) (Num (- 1))"
  by (simp add: classifySpiralData_closed genSpiral_pushed_label comp_def map_replicate_const)

lemma circle_pushed_label:
  "class_label (label (pushed (circle_body rnd noise radius lo hi i) k))"
  by (simp add: circle_pushed Let_def getCircleLabel_def class_label_def)

lemma xor_pushed_label: "class_label (label (pushed (xor_body rnd noise i) k))"
  by (simp add: xor_pushed getXORLabel_def class_label_def)

lemma lines_labels:
  assumes "0 < sumOfRatio props"
    and "\<forall>p \<in> set props. prop_label p = 1 \<or> prop_label p = - 1"
  shows "makeClassifyDataWithLines rnd k numSamples noise props rr \<noteq> None \<and>
    (\<forall>e \<in> set (emitted (makeClassifyDataWithLines rnd k numSamples noise props rr)).
       class_label (label e))"
proof -
  from assms(1) have "sumOfRatio props \<noteq> 0"
    by simp
  from makeClassifyDataWithLines_labels [OF this, of rnd k numSamples noise rr]
  obtain pts k' where r: "makeClassifyDataWithLines rnd k numSamples noise props rr = Some (pts, k')"
    and l: "map label pts = concat (map (\<lambda>p. replicate
         (nat (quota props numSamples p)) (Num (prop_label p))) props)"
    by blast
  have "class_label (label e)" if "e \<in> set pts" for e
  proof -
    from that have "label e \<in> set (map label pts)"
      by simp
    then obtain p where "p \<in> set props" "label e = Num (prop_label p)"
      unfolding l by auto
    with assms(2) show ?thesis
      by (auto simp add: class_label_def)
  qed
  with r show ?thesis
    by (simp add: emitted_def)
qed

lemma lines_emitted_labels:
  assumes "sumOfRatio props \<noteq> 0"
  shows "map label (emitted (makeClassifyDataWithLines rnd k numSamples noise props rr)) =
     concat (map (\<lambda>p. replicate
         (nat (quota props numSamples p)) (Num (prop_label p))) props)"
  using makeClassifyDataWithLines_labels [OF assms, of rnd k numSamples noise rr]
  by (auto simp add: emitted_def)

lemma oxtu_quota_10: "map (quota oxtu_props 10) oxtu_props = [2, 2, 0, 2, 0, 0, 0, 0]"
  by (simp add: oxtu_props_def mkProp_def quota_def sumOfRatio_def fl_lines)

lemma java_quota_10:
  "map (quota java_props 10) java_props = [0, 0, 1, 1, 0, 0, 0, 0, 0, 0, 0, 1, 0, 0]"
  by (simp add: java_props_def mkProp_def quota_def sumOfRatio_def fl_lines)


lemma labels_by_quota:
  "concat (map (\<lambda>p. replicate (nat (quota props n p)) (Num (prop_label p))) props) =
     concat (map (\<lambda>(q, l). replicate (nat q) (Num l))
       (zip (map (quota props n) props) (map prop_label props)))"
  by (simp add: zip_map_map comp_def zip_same_conv_map)

lemma oxtu_10:
  "map label (emitted (classifyOxtuData rnd k 10 noise)) =
     [Num 1, Num 1, Num 1, Num 1, Num (- 1), Num (- 1)]"
proof -
  have "map prop_label oxtu_props = [1, 1, 1, - 1, - 1, - 1, 1, 1]"
    by (simp add: oxtu_props_def mkProp_def)
  then show ?thesis
    using oxtu_props_ok(1)
    by (simp add: classifyOxtuData_def lines_emitted_labels labels_by_quota oxtu_quota_10
        numeral_eq_Suc)
qed

lemma java_10: "map label (emitted (classifyJavaData rnd k 10 noise)) = [Num (- 1), Num (- 1), Num (- 1)]"
proof -
  have "map prop_label java_props = [1, - 1, - 1, - 1, 1, - 1, - 1, - 1, 1, 1, 1, - 1, 1, - 1]"
    by (simp add: java_props_def mkProp_def)
  then show ?thesis
    using java_props_ok(1)
    by (simp add: classifyJavaData_def lines_emitted_labels labels_by_quota java_quota_10
        numeral_eq_Suc)
qed

lemma Rep_cycle_source:
  "0 \<le> rs ! (k mod length rs) \<Longrightarrow> rs ! (k mod length rs) < 1 \<Longrightarrow>
     Rep_draw (cycle_source rs k) = rs ! (k mod length rs)"
  by (simp add: cycle_source_def Abs_draw_inverse)

lemma genSpiral_pushed_noiseless:
  "pushed (genSpiral_body rnd 0 n deltaT lab i) k = spiral_point n deltaT lab i"
  by (simp add: genSpiral_body_def pushed_def randUniform_eq Let_def spiral_point_def)

lemma classifySpiralData_noiseless:
  "fst (classifySpiralData rnd k numSamples 0) =
     map (spiral_point (numSamples / 2) 0 1) [0..<nat \<lceil>numSamples / 2\<rceil>] @
     map (spiral_point (numSamples / 2) pi (- 1)) [0..<nat \<lceil>numSamples / 2\<rceil>]"
  by (simp add: classifySpiralData_closed genSpiral_pushed_noiseless)

lemma xor_pushed_rule: "xor_rule (pushed (xor_body rnd 0 i) k)"
  by (simp add: xor_rule_def xor_pushed getXORLabel_def)

lemma circle_body_fp_push:
  "circle_body_fp msin mcos rnd noise radius lo hi i (pts, k) =
     (pts @ [pushed (circle_body_fp msin mcos rnd noise radius lo hi i) k], k + 4)"
  by (simp add: circle_body_fp_def pushed_def randUniform_fp_def Math_random_def Let_def)

lemma classifyCircleData_fp_closed:
  "classifyCircleData_fp msin mcos rnd k numSamples noise =
     (map (\<lambda>i. pushed (circle_body_fp msin mcos rnd noise 5 0 (fl (5 * 0.5)) i) (k + 4 * i))
        [0..<nat \<lceil>numSamples / 2\<rceil>] @
      map (\<lambda>i. pushed (circle_body_fp msin mcos rnd noise 5 (fl (5 * fl 0.7)) 5 i)
            (k + 4 * nat \<lceil>numSamples / 2\<rceil> + 4 * i))
        [0..<nat \<lceil>numSamples / 2\<rceil>],
      k + 4 * nat \<lceil>numSamples / 2\<rceil> + 4 * nat \<lceil>numSamples / 2\<rceil>)"
  unfolding classifyCircleData_fp_def Let_def
  by (simp only: for_loop_push [of "circle_body_fp msin mcos rnd noise 5 lo hi" 4 for lo hi,
        OF circle_body_fp_push] append_Nil)

lemma circle_fp_pushed_rule:
  "circle_rule_fp (pushed (circle_body_fp msin mcos rnd 0 5 lo hi i) k)"
  by (simp add: circle_rule_fp_def circle_body_fp_def pushed_def randUniform_fp_def
      Math_random_def Let_def getCircleLabel_fp_def dist_fp_def fl_0 fl_idem fl_circle_1)

lemma circle_fp_run:
  "pushed (circle_body_fp sin_rounded cos_rounded
       (cycle_source [9007199254740991 / 9007199254740992, 10 / 4096, 0, 0]) 0 5 0 (fl (5 * 0.5)) 0) 0 =
     \<lparr>ex_x = Num (5526531496738525 / 144115188075855872), ex_y = Num (2814418604630705 / 1125899906842624), label = Num (- 1)\<rparr>"
  by (simp add: circle_body_fp_def pushed_def randUniform_fp_def Math_random_def Let_def
      Rep_cycle_source getCircleLabel_fp_def dist_fp_def sin_rounded_def cos_rounded_def
      Math_PI_def fl_0 fl_circle sin_at_angle cos_at_angle sqrt_at_sum)

lemma circle_fp_run_inside:
  "sqrt (5526531496738525 / 144115188075855872 * (5526531496738525 / 144115188075855872) + 2814418604630705 / 1125899906842624 * (2814418604630705 / 1125899906842624)) < 0.5 * 5"
  by (rule real_less_lsqrt) (simp_all add: power2_eq_square)

lemma circle_fp_half:
  "fst (classifyCircleData_fp sin_rounded cos_rounded (cycle_source [1 / 2, 0, 0, 0]) 0 1 0) =
     [\<lparr>ex_x = Num 0, ex_y = Num (5 / 4), label = Num 1\<rparr>,
      \<lparr>ex_x = Num 0, ex_y = Num (17 / 4), label = Num (- 1)\<rparr>]"
proof -
  have c: "nat \<lceil>(1 :: real) / 2\<rceil> = 1"
    by linarith
  show ?thesis
    by (simp add: classifyCircleData_fp_closed c circle_body_fp_def pushed_def randUniform_fp_def
        Math_random_def Let_def Rep_cycle_source getCircleLabel_fp_def dist_fp_def
        sin_rounded_def cos_rounded_def Math_PI_def fl_0 fl_plain sqrt_plain)
qed

lemma circle_fp_run_hd:
  "hd (fst (classifyCircleData_fp sin_rounded cos_rounded
       (cycle_source [9007199254740991 / 9007199254740992, 10 / 4096, 0, 0]) 0 1 0)) =
     \<lparr>ex_x = Num (5526531496738525 / 144115188075855872), ex_y = Num (2814418604630705 / 1125899906842624), label = Num (- 1)\<rparr>"
proof -
  have c: "nat \<lceil>(1 :: real) / 2\<rceil> = 1"
    by linarith
  show ?thesis
    using circle_fp_run by (simp add: classifyCircleData_fp_closed c fl_circle_1)
qed

lemma classifyXORData_half:
  "fst (classifyXORData (const_source (1 / 2)) 0 1 0) =
     [\<lparr>ex_x = Num (- 0.3), ex_y = Num (- 0.3), label = Num 1\<rparr>]"
proof -
  have "nat \<lceil>(1 :: real)\<rceil> = 1"
    by simp
  then show ?thesis
    by (simp add: classifyXORData_closed xor_pushed draw_at_eq Rep_const_source pad_def
        getXORLabel_def)
qed

lemma regressPlane_scale: "scale_linear (- 10) 10 (- 1) 1 v = v / 10"
  by (simp add: scale_linear_def Let_def field_simps)

lemma regressPlane_nth:
  assumes "i < length (fst (regressPlane rnd k numSamples noise))"
  shows "fst (regressPlane rnd k numSamples noise) ! i = pushed (regressPlane_body rnd noise i) (k + 4 * i)"
  using assms by (simp add: regressPlane_closed)

lemma regressPlane_coords:
  "map coords (fst (regressPlane rnd k numSamples noise)) =
     map (\<lambda>i. (Num (draw_at rnd (k + 4 * i) (- 6) 6), Num (draw_at rnd (k + 4 * i + 1) (- 6) 6)))
       [0..<nat \<lceil>numSamples\<rceil>]"
  by (simp add: regressPlane_closed regressPlane_pushed coords_def)

lemma regressGaussian_coords:
  "map coords (fst (regressGaussian rnd k numSamples noise)) =
     map (\<lambda>i. (Num (draw_at rnd (k + 4 * i) (- 6) 6), Num (draw_at rnd (k + 4 * i + 1) (- 6) 6)))
       [0..<nat \<lceil>numSamples\<rceil>]"
  by (simp add: regressGaussian_closed regressGaussian_pushed coords_def)

lemma classifyXORData_coords:
  "map coords (fst (classifyXORData rnd k numSamples noise)) =
     map (\<lambda>i. (Num (pad (draw_at rnd (k + 4 * i) (- 5) 5)),
                Num (pad (draw_at rnd (k + 4 * i + 1) (- 5) 5))))
       [0..<nat \<lceil>numSamples\<rceil>]"
  by (simp add: classifyXORData_closed xor_pushed coords_def)

lemma classifyCircleData_coords:
  "map coords (fst (classifyCircleData rnd k numSamples noise)) =
     map (\<lambda>i. polar (draw_at rnd (k + 4 * i) 0 (5 * 0.5)) (draw_at rnd (k + 4 * i + 1) 0 (2 * pi)))
       [0..<nat \<lceil>numSamples / 2\<rceil>] @
     map (\<lambda>i. polar (draw_at rnd (k + 4 * nat \<lceil>numSamples / 2\<rceil> + 4 * i) (5 * 0.7) 5)
                 (draw_at rnd (k + 4 * nat \<lceil>numSamples / 2\<rceil> + 4 * i + 1) 0 (2 * pi)))
       [0..<nat \<lceil>numSamples / 2\<rceil>]"
  by (simp add: classifyCircleData_closed circle_pushed coords_def Let_def polar_def)

lemma cycle_agree:
  "cycle_source [1 / 2, 1 / 2, 1 / 4, 1 / 4] (0 + 4 * j) =
     cycle_source [1 / 2, 1 / 2, 3 / 4, 1 / 8] (0 + 4 * j) \<and>
   cycle_source [1 / 2, 1 / 2, 1 / 4, 1 / 4] (0 + 4 * j + 1) =
     cycle_source [1 / 2, 1 / 2, 3 / 4, 1 / 8] (0 + 4 * j + 1)"
  by (simp add: cycle_source_def mod_Suc)

lemma regressPlane_cycle:
  "fst (regressPlane (cycle_source [1 / 2, 1 / 2, 1 / 4, 1 / 4]) 0 1 0) =
     [\<lparr>ex_x = Num 0, ex_y = Num 0, label = Num 0\<rparr>]"
  "fst (regressPlane (cycle_source [1 / 2, 1 / 2, 3 / 4, 1 / 8]) 0 1 1) =
     [\<lparr>ex_x = Num 0, ex_y = Num 0, label = Num (- 0.15)\<rparr>]"
  by (simp_all add: regressPlane_closed regressPlane_pushed draw_at_eq Rep_cycle_source
      regressPlane_getLabel_def regressPlane_scale)














section \<open>The claims\<close>

text \<open>
  C5: for every array and every sequence of draws, \<open>shuffle\<close> returns (the model is a
  total function) and the array it leaves has the length and the multiset of elements of
  the original; an array of length 0 or 1 is left exactly as it was.
\<close>

theorem shuffle_permutation:
  "length (fst (shuffle rnd k array)) = length array \<and>
   mset (fst (shuffle rnd k array)) = mset array \<and>
   (length array \<le> 1 \<longrightarrow> fst (shuffle rnd k array) = array)"
  using shuffle_loop_perm [of "length array" array rnd k]
    shuffle_loop_short [of "length array" rnd k array]
  by (simp add: shuffle_def)

theorem shuffle_permutation_witness:
  "length [7 :: nat] \<le> 1 \<and> fst (shuffle (const_source (1 / 2)) 0 [7 :: nat]) = [7] \<and>
   mset (fst (shuffle (const_source (1 / 2)) 0 [1, 2, 3 :: nat])) = mset [1, 2, 3]"
  using shuffle_permutation [of "const_source (1 / 2)" 0 "[7 :: nat]"]
    shuffle_permutation [of "const_source (1 / 2)" 0 "[1, 2, 3 :: nat]"]
  by simp

text \<open>
  C1: the claim is that the rejection loop of \<open>normalRandom\<close> accepts a pair only when
  \<open>0 < s \<le> 1\<close>, so that the logarithm and the division by \<open>s\<close> are safe. The loop's
  test is \<open>while (s > 1)\<close>: when \<open>Math.random()\<close> returns 0.5 twice, \<open>v1 = v2 = 0\<close>
  and \<open>s = 0\<close>, the pair is accepted after two draws, and \<open>normalRandom\<close> divides by
  zero and returns \<open>NaN\<close>.
\<close>

theorem normalRandom_accepts_zero:
  "normalRandom_loop (const_source (1 / 2)) 0 = Some (0, 0, 0, 2) \<and>
   normalRandom (const_source (1 / 2)) 0 0 1 = Some (NaN, 2)"
proof -
  have "normalRandom_loop (const_source (1 / 2)) 0 = Some (0, 0, 0, 2)"
    by (subst normalRandom_loop_unfold) (simp add: accepted_def Rep_const_source)
  then show ?thesis
    by (simp add: normalRandom_def)
qed

text \<open>
  C2, as the code has it: the loops run while \<open>i < numSamples / 2\<close>, and the quotient
  is not truncated, so each of the two loops of \<open>classifySpiralData\<close> and
  \<open>classifyCircleData\<close> pushes \<open>ceil(numSamples / 2)\<close> examples: for a non-negative
  integer \<open>n\<close> the result has exactly \<open>2 * ((n + 1) div 2)\<close> examples, which is \<open>n\<close>
  for even \<open>n\<close> and \<open>n + 1\<close> for odd \<open>n\<close>. \<open>classifyTwoGaussData\<close> has that length
  whenever it returns, and it returns whenever the rejection loop of \<open>normalRandom\<close> meets
  an accepted pair from every position of the source.
\<close>

theorem classify_length:
  "length (fst (classifySpiralData rnd k (real n) noise)) = 2 * ((n + 1) div 2) \<and>
   length (fst (classifyCircleData rnd k (real n) noise)) = 2 * ((n + 1) div 2) \<and>
   (classifyTwoGaussData rnd k (real n) noise = None \<or>
    length (emitted (classifyTwoGaussData rnd k (real n) noise)) = 2 * ((n + 1) div 2)) \<and>
   (eventually_accepts rnd \<longrightarrow> classifyTwoGaussData rnd k (real n) noise \<noteq> None)"
  using classifyTwoGaussData_length [of rnd k "real n" noise]
    classifyTwoGaussData_returns [of rnd k "real n" noise]
  by (auto simp add: classifySpiralData_length classifyCircleData_length ceiling_half)

theorem classify_length_witness:
  "eventually_accepts (const_source (3 / 4)) \<and>
   classifyTwoGaussData (const_source (3 / 4)) 0 (real 3) 0 \<noteq> None \<and>
   length (emitted (classifyTwoGaussData (const_source (3 / 4)) 0 (real 3) 0)) = 4 \<and>
   length (fst (classifySpiralData (const_source (3 / 4)) 0 (real 3) 0)) = 4 \<and>
   length (fst (classifyCircleData (const_source (3 / 4)) 0 (real 3) 0)) = 4"
proof -
  have h: "eventually_accepts (const_source (3 / 4))"
    by (rule eventually_accepts_const) simp_all
  show ?thesis
    using h classify_length [of "const_source (3 / 4)" 0 3 0]
    by auto
qed

text \<open>
  C2 as stated fails at \<open>numSamples = 1\<close>: the claimed length is \<open>2 * floor(1 / 2) = 0\<close>,
  and each of the three generators returns two examples.
\<close>

theorem classify_length_counterexample:
  "length (fst (classifySpiralData (const_source (1 / 2)) 0 1 0)) \<noteq> 2 * nat \<lfloor>(1 :: real) / 2\<rfloor> \<and>
   length (fst (classifyCircleData (const_source (1 / 2)) 0 1 0)) \<noteq> 2 * nat \<lfloor>(1 :: real) / 2\<rfloor> \<and>
   length (emitted (classifyTwoGaussData (const_source (1 / 2)) 0 1 0)) \<noteq> 2 * nat \<lfloor>(1 :: real) / 2\<rfloor>"
proof -
  have h: "eventually_accepts (const_source (1 / 2))"
    by (rule eventually_accepts_const) simp_all
  have c: "nat \<lceil>(1 :: real) / 2\<rceil> = 1" and f: "nat \<lfloor>(1 :: real) / 2\<rfloor> = 0"
    by linarith+
  have "classifyTwoGaussData (const_source (1 / 2)) 0 1 0 \<noteq> None"
    using classifyTwoGaussData_returns [OF h, of 0 1 0] by simp
  then have "length (emitted (classifyTwoGaussData (const_source (1 / 2)) 0 1 0)) = 2"
    using classifyTwoGaussData_length [of "const_source (1 / 2)" 0 1 0] c by auto
  then show ?thesis
    using c f by (simp add: classifySpiralData_length classifyCircleData_length)
qed

text \<open>
  C9: for every \<open>numSamples \<le> 0\<close> and every noise, each of the eight exported
  generators returns the empty sequence, and uses no draw of the source.
\<close>

theorem nonpositive_numSamples_empty:
  assumes "numSamples \<le> 0"
  shows "classifyTwoGaussData rnd k numSamples noise = Some ([], k) \<and>
    classifySpiralData rnd k numSamples noise = ([], k) \<and>
    classifyCircleData rnd k numSamples noise = ([], k) \<and>
    classifyXORData rnd k numSamples noise = ([], k) \<and>
    classifyOxtuData rnd k numSamples noise = Some ([], k) \<and>
    classifyJavaData rnd k numSamples noise = Some ([], k) \<and>
    regressPlane rnd k numSamples noise = ([], k) \<and>
    regressGaussian rnd k numSamples noise = ([], k)"
proof -
  from assms have z: "nat \<lceil>numSamples\<rceil> = 0" "nat \<lceil>numSamples / 2\<rceil> = 0"
    by (simp_all add: ceiling_le_iff)
  have "classifyTwoGaussData rnd k numSamples noise = Some ([], k)"
    by (simp add: classifyTwoGaussData_def for_loop_fold z Let_def)
  moreover have "classifyOxtuData rnd k numSamples noise = Some ([], k)"
    unfolding classifyOxtuData_def using oxtu_props_ok(1,2) assms by (rule lines_nonpositive)
  moreover have "classifyJavaData rnd k numSamples noise = Some ([], k)"
    unfolding classifyJavaData_def using java_props_ok(1,2) assms by (rule lines_nonpositive)
  ultimately show ?thesis
    by (simp add: classifySpiralData_closed classifyCircleData_closed classifyXORData_closed
        regressPlane_closed regressGaussian_closed z)
qed

theorem nonpositive_numSamples_empty_witness:
  "(- 3 :: real) \<le> 0 \<and>
   classifyTwoGaussData (const_source (1 / 2)) 0 (- 3) 1 = Some ([], 0) \<and>
   classifySpiralData (const_source (1 / 2)) 0 (- 3) 1 = ([], 0) \<and>
   classifyCircleData (const_source (1 / 2)) 0 (- 3) 1 = ([], 0) \<and>
   classifyXORData (const_source (1 / 2)) 0 (- 3) 1 = ([], 0) \<and>
   classifyOxtuData (const_source (1 / 2)) 0 (- 3) 1 = Some ([], 0) \<and>
   classifyJavaData (const_source (1 / 2)) 0 (- 3) 1 = Some ([], 0) \<and>
   regressPlane (const_source (1 / 2)) 0 (- 3) 1 = ([], 0) \<and>
   regressGaussian (const_source (1 / 2)) 0 (- 3) 1 = ([], 0)"
proof -
  have h: "(- 3 :: real) \<le> 0"
    by simp
  show ?thesis
    using h nonpositive_numSamples_empty [OF h, of "const_source (1 / 2)" 0 1]
    by simp
qed

text \<open>
  C3: every example emitted by a classification generator (\<open>classifyTwoGaussData\<close>,
  \<open>classifySpiralData\<close>, \<open>classifyCircleData\<close>, \<open>classifyXORData\<close>,
  \<open>classifyOxtuData\<close>, \<open>classifyJavaData\<close>) has label \<open>+1\<close> or \<open>-1\<close>, for every
  \<open>numSamples\<close> and noise; the two glyph generators always return.
\<close>

theorem classification_labels:
  "(\<forall>e \<in> set (emitted (classifyTwoGaussData rnd k numSamples noise)). class_label (label e)) \<and>
   (\<forall>e \<in> set (fst (classifySpiralData rnd k numSamples noise)). class_label (label e)) \<and>
   (\<forall>e \<in> set (fst (classifyCircleData rnd k numSamples noise)). class_label (label e)) \<and>
   (\<forall>e \<in> set (fst (classifyXORData rnd k numSamples noise)). class_label (label e)) \<and>
   classifyOxtuData rnd k numSamples noise \<noteq> None \<and>
   (\<forall>e \<in> set (emitted (classifyOxtuData rnd k numSamples noise)). class_label (label e)) \<and>
   classifyJavaData rnd k numSamples noise \<noteq> None \<and>
   (\<forall>e \<in> set (emitted (classifyJavaData rnd k numSamples noise)). class_label (label e))"
proof -
  have "\<forall>e \<in> set (fst (classifySpiralData rnd k numSamples noise)). class_label (label e)"
  proof
    fix e
    assume "e \<in> set (fst (classifySpiralData rnd k numSamples noise))"
    then have "label e \<in> set (map label (fst (classifySpiralData rnd k numSamples noise)))"
      by simp
    then show "class_label (label e)"
      unfolding classifySpiralData_labels by (auto simp add: class_label_def)
  qed
  moreover have "\<forall>e \<in> set (fst (classifyCircleData rnd k numSamples noise)). class_label (label e)"
    by (auto simp add: classifyCircleData_closed circle_pushed_label)
  moreover have "\<forall>e \<in> set (fst (classifyXORData rnd k numSamples noise)). class_label (label e)"
    by (auto simp add: classifyXORData_closed xor_pushed_label)
  ultimately show ?thesis
    using classifyTwoGaussData_labels [of rnd k numSamples noise]
      lines_labels [OF oxtu_props_ok(1,3), of rnd k numSamples noise 3]
      lines_labels [OF java_props_ok(1,3), of rnd k numSamples noise 3]
    by (simp add: classifyOxtuData_def classifyJavaData_def)
qed

theorem classification_labels_witness:
  "emitted (classifyTwoGaussData (const_source (3 / 4)) 0 1 0) \<noteq> [] \<and>
   class_label (label (hd (emitted (classifyTwoGaussData (const_source (3 / 4)) 0 1 0)))) \<and>
   fst (classifySpiralData (const_source (3 / 4)) 0 1 0) \<noteq> [] \<and>
   class_label (label (hd (fst (classifySpiralData (const_source (3 / 4)) 0 1 0)))) \<and>
   fst (classifyCircleData (const_source (3 / 4)) 0 1 0) \<noteq> [] \<and>
   class_label (label (hd (fst (classifyCircleData (const_source (3 / 4)) 0 1 0)))) \<and>
   fst (classifyXORData (const_source (3 / 4)) 0 1 0) \<noteq> [] \<and>
   class_label (label (hd (fst (classifyXORData (const_source (3 / 4)) 0 1 0)))) \<and>
   emitted (classifyOxtuData (const_source (3 / 4)) 0 10 0) \<noteq> [] \<and>
   class_label (label (hd (emitted (classifyOxtuData (const_source (3 / 4)) 0 10 0)))) \<and>
   emitted (classifyJavaData (const_source (3 / 4)) 0 10 0) \<noteq> [] \<and>
   class_label (label (hd (emitted (classifyJavaData (const_source (3 / 4)) 0 10 0))))"
proof -
  have c: "nat \<lceil>(1 :: real) / 2\<rceil> = 1" "nat \<lceil>(1 :: real)\<rceil> = 1"
    by linarith+
  have h: "eventually_accepts (const_source (3 / 4))"
    by (rule eventually_accepts_const) simp_all
  have "classifyTwoGaussData (const_source (3 / 4)) 0 1 0 \<noteq> None"
    using classifyTwoGaussData_returns [OF h, of 0 1 0] by simp
  then have "length (emitted (classifyTwoGaussData (const_source (3 / 4)) 0 1 0)) = 2"
    using classifyTwoGaussData_length [of "const_source (3 / 4)" 0 1 0] c by auto
  then have 1: "emitted (classifyTwoGaussData (const_source (3 / 4)) 0 1 0) \<noteq> []"
    by auto
  have "length (fst (classifySpiralData (const_source (3 / 4)) 0 1 0)) = 2"
    by (simp add: classifySpiralData_length c)
  then have 2: "fst (classifySpiralData (const_source (3 / 4)) 0 1 0) \<noteq> []"
    by auto
  have "length (fst (classifyCircleData (const_source (3 / 4)) 0 1 0)) = 2"
    by (simp add: classifyCircleData_length c)
  then have 3: "fst (classifyCircleData (const_source (3 / 4)) 0 1 0) \<noteq> []"
    by auto
  have "length (fst (classifyXORData (const_source (3 / 4)) 0 1 0)) = 1"
    by (simp add: classifyXORData_closed c)
  then have 4: "fst (classifyXORData (const_source (3 / 4)) 0 1 0) \<noteq> []"
    by auto
  have 5: "emitted (classifyOxtuData (const_source (3 / 4)) 0 10 0) \<noteq> []"
    using oxtu_10 [of "const_source (3 / 4)" 0 0] by auto
  have 6: "emitted (classifyJavaData (const_source (3 / 4)) 0 10 0) \<noteq> []"
    using java_10 [of "const_source (3 / 4)" 0 0] by auto
  show ?thesis
    using 1 2 3 4 5 6
      classification_labels [of "const_source (3 / 4)" 0 1 0]
      classification_labels [of "const_source (3 / 4)" 0 10 0]
    by simp
qed

text \<open>
  C6, as the code has it: with \<open>noise = 0\<close> the label of every example follows the rule
  of its generator on the emitted point: for \<open>classifyXORData\<close>, \<open>+1\<close> if
  \<open>x * y \<ge> 0\<close> and \<open>-1\<close> otherwise; for \<open>classifyCircleData\<close>, whatever \<open>Math.sin\<close>
  and \<open>Math.cos\<close> return, \<open>+1\<close> exactly when the distance to the origin as \<open>dist\<close>
  computes it in double precision is below 2.5; for \<open>classifySpiralData\<close>, the result
  is the points of the arm \<open>deltaT = 0\<close>, all with label \<open>+1\<close>, followed by the points
  of the arm \<open>deltaT = \<pi>\<close>, all with label \<open>-1\<close>.
\<close>

theorem noiseless_labels:
  "(\<forall>e \<in> set (fst (classifyXORData rnd k numSamples 0)). xor_rule e) \<and>
   (\<forall>e \<in> set (fst (classifyCircleData_fp msin mcos rnd k numSamples 0)). circle_rule_fp e) \<and>
   fst (classifySpiralData rnd k numSamples 0) =
     map (spiral_point (numSamples / 2) 0 1) [0..<nat \<lceil>numSamples / 2\<rceil>] @
     map (spiral_point (numSamples / 2) pi (- 1)) [0..<nat \<lceil>numSamples / 2\<rceil>] \<and>
   map label (fst (classifySpiralData rnd k numSamples 0)) =
     replicate (nat \<lceil>numSamples / 2\<rceil>) (Num 1) @ replicate (nat \<lceil>numSamples / 2\<rceil>) (Num (- 1))"
proof -
  have "\<forall>e \<in> set (fst (classifyXORData rnd k numSamples 0)). xor_rule e"
    by (auto simp add: classifyXORData_closed xor_pushed_rule)
  moreover have
    "\<forall>e \<in> set (fst (classifyCircleData_fp msin mcos rnd k numSamples 0)). circle_rule_fp e"
    by (auto simp add: classifyCircleData_fp_closed circle_fp_pushed_rule)
  ultimately show ?thesis
    using classifySpiralData_labels [of rnd k numSamples 0]
      classifySpiralData_noiseless [of rnd k numSamples]
    by blast
qed

theorem noiseless_labels_witness:
  "fst (classifyXORData (const_source (1 / 2)) 0 1 0) =
     [\<lparr>ex_x = Num (- 0.3), ex_y = Num (- 0.3), label = Num 1\<rparr>] \<and>
   xor_rule \<lparr>ex_x = Num (- 0.3), ex_y = Num (- 0.3), label = Num 1\<rparr> \<and>
   fst (classifyCircleData_fp sin_rounded cos_rounded (cycle_source [1 / 2, 0, 0, 0]) 0 1 0) =
     [\<lparr>ex_x = Num 0, ex_y = Num 1.25, label = Num 1\<rparr>,
      \<lparr>ex_x = Num 0, ex_y = Num 4.25, label = Num (- 1)\<rparr>] \<and>
   circle_rule_fp \<lparr>ex_x = Num 0, ex_y = Num 1.25, label = Num 1\<rparr> \<and>
   circle_rule_fp \<lparr>ex_x = Num 0, ex_y = Num 4.25, label = Num (- 1)\<rparr> \<and>
   fst (classifySpiralData (const_source (1 / 2)) 0 1 0) =
     [\<lparr>ex_x = Num 0, ex_y = Num 0, label = Num 1\<rparr>,
      \<lparr>ex_x = Num 0, ex_y = Num 0, label = Num (- 1)\<rparr>] \<and>
   map label (fst (classifySpiralData (const_source (1 / 2)) 0 1 0)) = [Num 1, Num (- 1)]"
proof -
  have c: "nat \<lceil>(1 :: real) / 2\<rceil> = 1"
    by linarith
  show ?thesis
    using noiseless_labels [of "const_source (1 / 2)" 0 1 sin_rounded cos_rounded]
      noiseless_labels [of "cycle_source [1 / 2, 0, 0, 0]" 0 1 sin_rounded cos_rounded]
    by (simp add: classifyXORData_half circle_fp_half c spiral_point_def)
qed

text \<open>
  C6 as stated fails for \<open>classifyCircleData\<close>. With correctly rounded \<open>Math.sin\<close> and
  \<open>Math.cos\<close>, \<open>numSamples = 1\<close>, \<open>noise = 0\<close> and the draws \<open>1 - 2 ^ -53\<close> and
  \<open>10 / 4096\<close> for the radius and the angle, the first example is the point
  (0.03834801571247024, 2.499705868635531). Its distance to the origin is below 2.5,
  by less than \<open>10 ^ -15\<close>; the sum of the rounded squares is the double just below
  6.25, its square root rounds to 2.5, the test \<open>dist < 2.5\<close> is false, and the label
  is \<open>-1\<close>.
\<close>

theorem noiseless_labels_counterexample:
  "hd (fst (classifyCircleData_fp sin_rounded cos_rounded
       (cycle_source [9007199254740991 / 9007199254740992, 10 / 4096, 0, 0]) 0 1 0)) =
     \<lparr>ex_x = Num (5526531496738525 / 144115188075855872), ex_y = Num (2814418604630705 / 1125899906842624), label = Num (- 1)\<rparr> \<and>
   sqrt (5526531496738525 / 144115188075855872 * (5526531496738525 / 144115188075855872) + 2814418604630705 / 1125899906842624 * (2814418604630705 / 1125899906842624)) < 0.5 * 5 \<and>
   \<not> circle_rule \<lparr>ex_x = Num (5526531496738525 / 144115188075855872), ex_y = Num (2814418604630705 / 1125899906842624), label = Num (- 1)\<rparr>"
  using circle_fp_run_hd circle_fp_run_inside by (simp add: circle_rule_def)

text \<open>
  C7: the \<open>i\<close>-th example of \<open>regressPlane\<close> has the sampled coordinates \<open>x\<close>, \<open>y\<close>
  and the label \<open>((x + noiseX) + (y + noiseY)) / 10\<close>, the unclamped linear map from
  \<open>[-10, 10]\<close> to \<open>[-1, 1]\<close>; at the point \<open>(5, 5)\<close> without noise the label is
  exactly 1. (In the witness a noise of 3 gives the label 4, outside \<open>[-1, 1]\<close>.)
\<close>

theorem regressPlane_label:
  assumes "i < length (fst (regressPlane rnd k numSamples noise))"
  shows "(let x = draw_at rnd (k + 4 * i) (- 6) 6;
              y = draw_at rnd (k + 4 * i + 1) (- 6) 6;
              noiseX = draw_at rnd (k + 4 * i + 2) (- 6) 6 * noise;
              noiseY = draw_at rnd (k + 4 * i + 3) (- 6) 6 * noise
          in fst (regressPlane rnd k numSamples noise) ! i =
               \<lparr>ex_x = Num x, ex_y = Num y, label = Num (((x + noiseX) + (y + noiseY)) / 10)\<rparr> \<and>
             ((x + noiseX) + (y + noiseY)) / 10 =
               scale_linear (- 10) 10 (- 1) 1 ((x + noiseX) + (y + noiseY))) \<and>
         regressPlane_getLabel 5 5 = 1"
  by (simp add: regressPlane_nth [OF assms] regressPlane_pushed regressPlane_getLabel_def
      regressPlane_scale Let_def)

theorem regressPlane_label_witness:
  "0 < length (fst (regressPlane (const_source (11 / 12)) 0 1 0)) \<and>
   fst (regressPlane (const_source (11 / 12)) 0 1 0) ! 0 =
     \<lparr>ex_x = Num 5, ex_y = Num 5, label = Num 1\<rparr> \<and>
   fst (regressPlane (const_source (11 / 12)) 0 1 3) ! 0 =
     \<lparr>ex_x = Num 5, ex_y = Num 5, label = Num 4\<rparr>"
proof -
  have h: "0 < length (fst (regressPlane (const_source (11 / 12)) 0 1 noise))" for noise
    by (simp add: regressPlane_closed)
  show ?thesis
    using h [of 0] regressPlane_label [OF h, of 0] regressPlane_label [OF h, of 3]
    by (simp add: draw_at_eq Rep_const_source Let_def)
qed

text \<open>
  C10: in \<open>classifyCircleData\<close>, \<open>classifyXORData\<close>, \<open>regressPlane\<close> and
  \<open>regressGaussian\<close> each iteration takes four draws, the third and fourth for the
  noise. The coordinates of the emitted examples are the sampled (for XOR, padded)
  coordinates, computed from the first two draws only: two runs whose sources agree on
  those draws emit the same coordinates, whatever the noise draws and the noise levels.
\<close>

theorem coordinates_ignore_noise:
  assumes "\<forall>j. rnd (k + 4 * j) = rnd' (k + 4 * j) \<and> rnd (k + 4 * j + 1) = rnd' (k + 4 * j + 1)"
  shows "map coords (fst (classifyCircleData rnd k numSamples noise)) =
      map coords (fst (classifyCircleData rnd' k numSamples noise')) \<and>
    map coords (fst (classifyXORData rnd k numSamples noise)) =
      map coords (fst (classifyXORData rnd' k numSamples noise')) \<and>
    map coords (fst (regressPlane rnd k numSamples noise)) =
      map coords (fst (regressPlane rnd' k numSamples noise')) \<and>
    map coords (fst (regressGaussian rnd k numSamples noise)) =
      map coords (fst (regressGaussian rnd' k numSamples noise')) \<and>
    map coords (fst (classifyCircleData rnd k numSamples noise)) =
      map (\<lambda>i. polar (draw_at rnd (k + 4 * i) 0 (5 * 0.5)) (draw_at rnd (k + 4 * i + 1) 0 (2 * pi)))
        [0..<nat \<lceil>numSamples / 2\<rceil>] @
      map (\<lambda>i. polar (draw_at rnd (k + 4 * nat \<lceil>numSamples / 2\<rceil> + 4 * i) (5 * 0.7) 5)
                  (draw_at rnd (k + 4 * nat \<lceil>numSamples / 2\<rceil> + 4 * i + 1) 0 (2 * pi)))
        [0..<nat \<lceil>numSamples / 2\<rceil>] \<and>
    map coords (fst (classifyXORData rnd k numSamples noise)) =
      map (\<lambda>i. (Num (pad (draw_at rnd (k + 4 * i) (- 5) 5)),
                 Num (pad (draw_at rnd (k + 4 * i + 1) (- 5) 5)))) [0..<nat \<lceil>numSamples\<rceil>] \<and>
    map coords (fst (regressPlane rnd k numSamples noise)) =
      map (\<lambda>i. (Num (draw_at rnd (k + 4 * i) (- 6) 6),
                 Num (draw_at rnd (k + 4 * i + 1) (- 6) 6))) [0..<nat \<lceil>numSamples\<rceil>] \<and>
    map coords (fst (regressGaussian rnd k numSamples noise)) =
      map (\<lambda>i. (Num (draw_at rnd (k + 4 * i) (- 6) 6),
                 Num (draw_at rnd (k + 4 * i + 1) (- 6) 6))) [0..<nat \<lceil>numSamples\<rceil>]"
proof -
  have d: "draw_at rnd (k + 4 * j) a b = draw_at rnd' (k + 4 * j) a b"
    "draw_at rnd (k + 4 * j + 1) a b = draw_at rnd' (k + 4 * j + 1) a b" for j a b
    using assms by (simp_all add: draw_at_eq)
  have e: "draw_at rnd (k + 4 * m + 4 * j) a b = draw_at rnd' (k + 4 * m + 4 * j) a b"
    "draw_at rnd (k + 4 * m + 4 * j + 1) a b = draw_at rnd' (k + 4 * m + 4 * j + 1) a b" for m j a b
    using d [of "m + j" a b] by (simp_all add: add_mult_distrib2 add.assoc)
  have "map coords (fst (classifyCircleData rnd k numSamples noise)) =
      map coords (fst (classifyCircleData rnd' k numSamples noise'))"
    by (simp only: classifyCircleData_coords d e)
  moreover have "map coords (fst (classifyXORData rnd k numSamples noise)) =
      map coords (fst (classifyXORData rnd' k numSamples noise'))"
    by (simp only: classifyXORData_coords d)
  moreover have "map coords (fst (regressPlane rnd k numSamples noise)) =
      map coords (fst (regressPlane rnd' k numSamples noise'))"
    by (simp only: regressPlane_coords d)
  moreover have "map coords (fst (regressGaussian rnd k numSamples noise)) =
      map coords (fst (regressGaussian rnd' k numSamples noise'))"
    by (simp only: regressGaussian_coords d)
  ultimately show ?thesis
    using classifyCircleData_coords [of rnd k numSamples noise]
      classifyXORData_coords [of rnd k numSamples noise]
      regressPlane_coords [of rnd k numSamples noise]
      regressGaussian_coords [of rnd k numSamples noise]
    by blast
qed

theorem coordinates_ignore_noise_witness:
  "(\<forall>j. cycle_source [1 / 2, 1 / 2, 1 / 4, 1 / 4] (0 + 4 * j) =
          cycle_source [1 / 2, 1 / 2, 3 / 4, 1 / 8] (0 + 4 * j) \<and>
        cycle_source [1 / 2, 1 / 2, 1 / 4, 1 / 4] (0 + 4 * j + 1) =
          cycle_source [1 / 2, 1 / 2, 3 / 4, 1 / 8] (0 + 4 * j + 1)) \<and>
   map coords (fst (classifyCircleData (cycle_source [1 / 2, 1 / 2, 1 / 4, 1 / 4]) 0 1 0)) =
     map coords (fst (classifyCircleData (cycle_source [1 / 2, 1 / 2, 3 / 4, 1 / 8]) 0 1 1)) \<and>
   map coords (fst (classifyXORData (cycle_source [1 / 2, 1 / 2, 1 / 4, 1 / 4]) 0 1 0)) =
     map coords (fst (classifyXORData (cycle_source [1 / 2, 1 / 2, 3 / 4, 1 / 8]) 0 1 1)) \<and>
   map coords (fst (regressGaussian (cycle_source [1 / 2, 1 / 2, 1 / 4, 1 / 4]) 0 1 0)) =
     map coords (fst (regressGaussian (cycle_source [1 / 2, 1 / 2, 3 / 4, 1 / 8]) 0 1 1)) \<and>
   map coords (fst (regressPlane (cycle_source [1 / 2, 1 / 2, 1 / 4, 1 / 4]) 0 1 0)) =
     map coords (fst (regressPlane (cycle_source [1 / 2, 1 / 2, 3 / 4, 1 / 8]) 0 1 1)) \<and>
   fst (regressPlane (cycle_source [1 / 2, 1 / 2, 1 / 4, 1 / 4]) 0 1 0) =
     [\<lparr>ex_x = Num 0, ex_y = Num 0, label = Num 0\<rparr>] \<and>
   fst (regressPlane (cycle_source [1 / 2, 1 / 2, 3 / 4, 1 / 8]) 0 1 1) =
     [\<lparr>ex_x = Num 0, ex_y = Num 0, label = Num (- 0.15)\<rparr>]"
proof -
  have h: "\<forall>j. cycle_source [1 / 2, 1 / 2, 1 / 4, 1 / 4] (0 + 4 * j) =
          cycle_source [1 / 2, 1 / 2, 3 / 4, 1 / 8] (0 + 4 * j) \<and>
        cycle_source [1 / 2, 1 / 2, 1 / 4, 1 / 4] (0 + 4 * j + 1) =
          cycle_source [1 / 2, 1 / 2, 3 / 4, 1 / 8] (0 + 4 * j + 1)"
    using cycle_agree by blast
  show ?thesis
    using h coordinates_ignore_noise [OF h, of 1 0 1] regressPlane_cycle
    by blast
qed





end
